theory Spec2Isabelle
  imports Main "HOL-Library.Word"
begin

section \<open>JavaScript values used by the handlers\<close>

text \<open>
  An optional string field (\<^verbatim>\<open>projectId?: string\<close>, a nullable TEXT column) is a
  \<open>string option\<close>; \<open>None\<close> stands for \<^verbatim>\<open>undefined\<close> and \<^verbatim>\<open>null\<close>.
  JavaScript treats \<^verbatim>\<open>undefined\<close>, \<^verbatim>\<open>null\<close> and the empty string as false in
  \<^verbatim>\<open>if (x)\<close> and in \<^verbatim>\<open>x || y\<close>.
\<close>

fun truthy :: "'a list option \<Rightarrow> bool" where
  "truthy None = False"
| "truthy (Some s) = (s \<noteq> [])"

definition js_or :: "string option \<Rightarrow> string option \<Rightarrow> string option" where
  "js_or a b = (if truthy a then a else b)"

text \<open>\<^verbatim>\<open>x || d\<close> where the right operand is always a string.\<close>

definition or_default :: "string option \<Rightarrow> string \<Rightarrow> string" where
  "or_default a d = (case a of None \<Rightarrow> d | Some s \<Rightarrow> if s = [] then d else s)"

text \<open>
  SQLite's \<^verbatim>\<open>LOWER\<close> on a TEXT value: the bytes of the ASCII letters A to Z are
  replaced by those of a to z, every other byte is left as it is.
\<close>

definition lowerChar :: "char \<Rightarrow> char" where
  "lowerChar c =
     (if 65 \<le> (of_char c :: nat) \<and> (of_char c :: nat) \<le> 90
      then char_of ((of_char c :: nat) + 32) else c)"

definition LOWER :: "string \<Rightarrow> string" where
  "LOWER s = map lowerChar s"

text \<open>
  Where a handler depends on the length of a string, the string is what JavaScript has: a
  sequence of UTF-16 code units, and \<^verbatim>\<open>.length\<close> is their number. A TEXT value of the
  database is a sequence of bytes. When the driver binds a JavaScript string to a statement
  it writes the string in UTF-8: a high surrogate followed by a low one is one code point of
  four bytes, a surrogate on its own is written as U+FFFD.
\<close>

type_synonym jsstring = "16 word list"

definition isHighSurrogate :: "16 word \<Rightarrow> bool" where
  "isHighSurrogate u = (0xD800 \<le> unat u \<and> unat u \<le> 0xDBFF)"

definition isLowSurrogate :: "16 word \<Rightarrow> bool" where
  "isLowSurrogate u = (0xDC00 \<le> unat u \<and> unat u \<le> 0xDFFF)"

definition codeUnitAlone :: "16 word \<Rightarrow> nat" where
  "codeUnitAlone u = (if isHighSurrogate u \<or> isLowSurrogate u then 0xFFFD else unat u)"

fun codePoints :: "jsstring \<Rightarrow> nat list" where
  "codePoints [] = []"
| "codePoints [u] = [codeUnitAlone u]"
| "codePoints (u # v # us) =
     (if isHighSurrogate u \<and> isLowSurrogate v
      then (0x10000 + (unat u - 0xD800) * 0x400 + (unat v - 0xDC00)) # codePoints us
      else codeUnitAlone u # codePoints (v # us))"

definition utf8Bytes :: "nat \<Rightarrow> string" where
  "utf8Bytes c =
     (if c < 0x80 then [char_of c]
      else if c < 0x800 then [char_of (0xC0 + c div 0x40), char_of (0x80 + c mod 0x40)]
      else if c < 0x10000
      then [char_of (0xE0 + c div 0x1000), char_of (0x80 + c div 0x40 mod 0x40),
            char_of (0x80 + c mod 0x40)]
      else [char_of (0xF0 + c div 0x40000), char_of (0x80 + c div 0x1000 mod 0x40),
            char_of (0x80 + c div 0x40 mod 0x40), char_of (0x80 + c mod 0x40)])"

definition utf8 :: "jsstring \<Rightarrow> string" where
  "utf8 s = concat (map utf8Bytes (codePoints s))"

text \<open>
  \<^verbatim>\<open>s.trim()\<close> is the empty string exactly when every character of \<^verbatim>\<open>s\<close> is white
  space (tab, line feed, vertical tab, form feed, carriage return, space).
\<close>

definition isWhiteSpace :: "char \<Rightarrow> bool" where
  "isWhiteSpace c = (c \<in> set [CHR 0x09, CHR 0x0A, CHR 0x0B, CHR 0x0C, CHR 0x0D, CHR 0x20])"

definition trimIsEmpty :: "string \<Rightarrow> bool" where
  "trimIsEmpty s = list_all isWhiteSpace s"

section \<open>JSON values and the platform's JSON.stringify and JSON.parse\<close>

text \<open>
  A JSON value as the handlers see it after body parsing. An object is the list of its
  properties in enumeration order; numbers are integers. \<^verbatim>\<open>JSON.stringify\<close> and
  \<^verbatim>\<open>JSON.parse\<close> are built into the platform; they are modelled here after
  ECMAScript's SerializeJSONProperty and QuoteJSONString: no white space between tokens,
  the double quote and the backslash escaped with a backslash, control characters written
  with their short escapes (b, f, n, r, t) or as a four-digit hexadecimal escape. The parser
  reads the texts the serializer writes (and the literal \<^verbatim>\<open>[]\<close>); \<open>None\<close> stands for
  the SyntaxError that \<^verbatim>\<open>JSON.parse\<close> throws.
\<close>

datatype json =
    JNull
  | JBool bool
  | JNum int
  | JStr string
  | JArr "json list"
  | JObj "(string \<times> json) list"

definition hexDigit :: "nat \<Rightarrow> char" where
  "hexDigit n = (if n < 10 then char_of (48 + n) else char_of (87 + n))"

definition QuoteJSONChar :: "char \<Rightarrow> string" where
  "QuoteJSONChar c =
     (if c = CHR 0x22 then [CHR 0x5C, CHR 0x22]
      else if c = CHR 0x5C then [CHR 0x5C, CHR 0x5C]
      else if c = CHR 0x08 then [CHR 0x5C, CHR ''b'']
      else if c = CHR 0x0C then [CHR 0x5C, CHR ''f'']
      else if c = CHR 0x0A then [CHR 0x5C, CHR ''n'']
      else if c = CHR 0x0D then [CHR 0x5C, CHR ''r'']
      else if c = CHR 0x09 then [CHR 0x5C, CHR ''t'']
      else if (of_char c :: nat) < 32
      then [CHR 0x5C, CHR ''u'', CHR ''0'', CHR ''0'',
            hexDigit (of_char c div 16), hexDigit (of_char c mod 16)]
      else [c])"

definition QuoteJSONString :: "string \<Rightarrow> string" where
  "QuoteJSONString s = CHR 0x22 # concat (map QuoteJSONChar s) @ [CHR 0x22]"

fun digits :: "nat \<Rightarrow> string" where
  "digits n = (if n < 10 then [char_of (48 + n)] else digits (n div 10) @ [char_of (48 + n mod 10)])"

declare digits.simps [simp del]

definition NumberToString :: "int \<Rightarrow> string" where
  "NumberToString i = (if i < 0 then CHR ''-'' # digits (nat (- i)) else digits (nat i))"

fun commaSep :: "string list \<Rightarrow> string" where
  "commaSep [] = []"
| "commaSep [x] = x"
| "commaSep (x # y # ys) = x @ CHR '','' # commaSep (y # ys)"

primrec SerializeJSONProperty :: "json \<Rightarrow> string" where
  "SerializeJSONProperty JNull = ''null''"
| "SerializeJSONProperty (JBool b) = (if b then ''true'' else ''false'')"
| "SerializeJSONProperty (JNum i) = NumberToString i"
| "SerializeJSONProperty (JStr s) = QuoteJSONString s"
| "SerializeJSONProperty (JArr vs) = CHR ''['' # commaSep (map SerializeJSONProperty vs) @ '']''"
| "SerializeJSONProperty (JObj kvs) =
     CHR ''{'' # commaSep (map (\<lambda>kv. QuoteJSONString (fst kv) @ CHR '':'' # snd kv)
                            (map (map_prod id SerializeJSONProperty) kvs)) @ ''}''"

definition hexVal :: "char \<Rightarrow> nat option" where
  "hexVal c =
     (let n = (of_char c :: nat) in
      if 48 \<le> n \<and> n \<le> 57 then Some (n - 48)
      else if 97 \<le> n \<and> n \<le> 102 then Some (n - 87)
      else if 65 \<le> n \<and> n \<le> 70 then Some (n - 55)
      else None)"

definition unescape :: "char \<Rightarrow> char option" where
  "unescape e =
     (if e = CHR 0x22 then Some (CHR 0x22)
      else if e = CHR 0x5C then Some (CHR 0x5C)
      else if e = CHR ''/'' then Some (CHR ''/'')
      else if e = CHR ''b'' then Some (CHR 0x08)
      else if e = CHR ''f'' then Some (CHR 0x0C)
      else if e = CHR ''n'' then Some (CHR 0x0A)
      else if e = CHR ''r'' then Some (CHR 0x0D)
      else if e = CHR ''t'' then Some (CHR 0x09)
      else None)"

fun parseChars :: "string \<Rightarrow> (string \<times> string) option" where
  "parseChars [] = None"
| "parseChars (c # cs) =
     (if c = CHR 0x22 then Some ([], cs)
      else if c = CHR 0x5C then
        (case cs of
           [] \<Rightarrow> None
         | e # es \<Rightarrow>
             if e = CHR ''u'' then
               (case es of
                  h1 # h2 # h3 # h4 # r \<Rightarrow>
                    (case (hexVal h1, hexVal h2, hexVal h3, hexVal h4) of
                       (Some a, Some b, Some x, Some y) \<Rightarrow>
                         if a = 0 \<and> b = 0
                         then map_option (apfst ((#) (char_of (16 * x + y)))) (parseChars r)
                         else None
                     | _ \<Rightarrow> None)
                | _ \<Rightarrow> None)
             else (case unescape e of
                     None \<Rightarrow> None
                   | Some ch \<Rightarrow> map_option (apfst ((#) ch)) (parseChars es)))
      else if (of_char c :: nat) < 32 then None
      else map_option (apfst ((#) c)) (parseChars cs))"

definition isDigit :: "char \<Rightarrow> bool" where
  "isDigit c = (48 \<le> (of_char c :: nat) \<and> (of_char c :: nat) \<le> 57)"

definition digitsVal :: "string \<Rightarrow> nat" where
  "digitsVal ds = foldl (\<lambda>a c. 10 * a + (of_char c - 48)) 0 ds"

definition parseDigits :: "string \<Rightarrow> (nat \<times> string) option" where
  "parseDigits s =
     (if takeWhile isDigit s = [] then None
      else Some (digitsVal (takeWhile isDigit s), dropWhile isDigit s))"

fun parseValue :: "nat \<Rightarrow> string \<Rightarrow> (json \<times> string) option"
  and parseElements :: "nat \<Rightarrow> string \<Rightarrow> (json list \<times> string) option"
  and parseMembers :: "nat \<Rightarrow> string \<Rightarrow> ((string \<times> json) list \<times> string) option" where
  "parseValue 0 s = None"
| "parseValue (Suc n) s =
     (case s of
        [] \<Rightarrow> None
      | c # cs \<Rightarrow>
          if c = CHR ''['' then
            (case cs of
               [] \<Rightarrow> None
             | d # r \<Rightarrow>
                 if d = CHR '']'' then Some (JArr [], r)
                 else map_option (apfst JArr) (parseElements n cs))
          else if c = CHR ''{'' then
            (case cs of
               [] \<Rightarrow> None
             | d # r \<Rightarrow>
                 if d = CHR ''}'' then Some (JObj [], r)
                 else map_option (apfst JObj) (parseMembers n cs))
          else if c = CHR 0x22 then map_option (apfst JStr) (parseChars cs)
          else if c = CHR ''-'' then map_option (apfst (\<lambda>k. JNum (- int k))) (parseDigits cs)
          else if isDigit c then map_option (apfst (\<lambda>k. JNum (int k))) (parseDigits s)
          else if take 4 s = ''null'' then Some (JNull, drop 4 s)
          else if take 4 s = ''true'' then Some (JBool True, drop 4 s)
          else if take 5 s = ''false'' then Some (JBool False, drop 5 s)
          else None)"
| "parseElements 0 s = None"
| "parseElements (Suc n) s =
     (case parseValue n s of
        None \<Rightarrow> None
      | Some (v, r) \<Rightarrow>
          (case r of
             [] \<Rightarrow> None
           | d # r' \<Rightarrow>
               if d = CHR '']'' then Some ([v], r')
               else if d = CHR '','' then map_option (apfst ((#) v)) (parseElements n r')
               else None))"
| "parseMembers 0 s = None"
| "parseMembers (Suc n) s =
     (case s of
        [] \<Rightarrow> None
      | c # cs \<Rightarrow>
          if c = CHR 0x22 then
            (case parseChars cs of
               None \<Rightarrow> None
             | Some (k, r) \<Rightarrow>
                 (case r of
                    [] \<Rightarrow> None
                  | col # r1 \<Rightarrow>
                      if col = CHR '':'' then
                        (case parseValue n r1 of
                           None \<Rightarrow> None
                         | Some (v, r2) \<Rightarrow>
                             (case r2 of
                                [] \<Rightarrow> None
                              | d # r3 \<Rightarrow>
                                  if d = CHR ''}'' then Some ([(k, v)], r3)
                                  else if d = CHR '','' then
                                    map_option (apfst ((#) (k, v))) (parseMembers n r3)
                                  else None))
                      else None))
          else None)"

definition JSON_stringify :: "json \<Rightarrow> string" where
  "JSON_stringify v = SerializeJSONProperty v"

definition JSON_parse :: "string \<Rightarrow> json option" where
  "JSON_parse s =
     (case parseValue (Suc (length s)) s of
        None \<Rightarrow> None
      | Some (v, r) \<Rightarrow> if r = [] then Some v else None)"

section \<open>Client state store (App component)\<close>

subsection \<open>Types (types.ts)\<close>

text \<open>
  Nested arrays that the handlers and the server never look into (\<^verbatim>\<open>subtasks\<close>,
  \<^verbatim>\<open>timeline\<close>, \<^verbatim>\<open>files\<close>, \<^verbatim>\<open>tags\<close>) are kept as JSON values.
\<close>

record Task =
  t_id :: string
  t_content :: string
  t_isCompleted :: bool
  t_type :: string
  t_date :: string
  t_createdAt :: string
  t_isPriority :: "bool option"
  t_subtasks :: "json option"
  t_engagementId :: "string option"
  t_engagementName :: "string option"
  t_projectId :: "string option"
  t_projectName :: "string option"

record ProjectTask =
  pt_id :: string
  pt_content :: string
  pt_isCompleted :: bool

record ResearchNote =
  rn_id :: string
  rn_date :: string
  rn_content :: string
  rn_createdAt :: string

record InternalProject =
  p_id :: string
  p_name :: string
  p_description :: string
  p_status :: string
  p_startDate :: string
  p_dueDate :: string
  p_tasks :: "ProjectTask list"
  p_researchNotes :: "ResearchNote list"
  p_createdAt :: string
  p_sourceIdeaId :: "string option"
  p_sourceIdeaTitle :: "string option"
  p_sourceEngagementId :: "string option"
  p_sourceEngagementName :: "string option"

text \<open>
  The two \<^verbatim>\<open>useState\<close> collections the task handlers touch, and the requests
  they send through apiService (\<^verbatim>\<open>saveTaskAPI\<close>, \<^verbatim>\<open>deleteTaskAPI\<close>,
  \<^verbatim>\<open>saveProjectAPI\<close>).
\<close>

record AppState =
  tasks :: "Task list"
  projects :: "InternalProject list"

datatype request =
    SaveTaskAPI Task
  | DeleteTaskAPI string
  | SaveProjectAPI InternalProject

text \<open>
  A state setter that is called with an updater function does not call it: React puts the
  function on the queue of the state variable and calls it with the pending state while it
  renders the component the next time. The event handler runs on in the meantime, so a
  local variable that only the updater assigns still has its initial value when the handler
  reads it. A handler is therefore a function to the updaters it has queued, in order, and
  the requests it has sent; \<open>render\<close> is what the next rendering makes of the queue.
\<close>

datatype setState =
    SetTasks "Task list \<Rightarrow> Task list"
  | SetProjects "InternalProject list \<Rightarrow> InternalProject list"

fun applyUpdater :: "AppState \<Rightarrow> setState \<Rightarrow> AppState" where
  "applyUpdater s (SetTasks f) = s\<lparr>tasks := f (tasks s)\<rparr>"
| "applyUpdater s (SetProjects f) = s\<lparr>projects := f (projects s)\<rparr>"

definition render :: "AppState \<Rightarrow> setState list \<Rightarrow> AppState" where
  "render s queue = foldl applyUpdater s queue"

subsection \<open>handleUpdateTask\<close>

text \<open>
  The callback of \<^verbatim>\<open>p.tasks.map\<close>: the matching ProjectTask takes the content and the
  completion flag of the updated task, every other one is returned as it is.
\<close>

definition updateProjectTask :: "Task \<Rightarrow> ProjectTask \<Rightarrow> ProjectTask" where
  "updateProjectTask updatedTask pt =
     (if pt_id pt = t_id updatedTask
      then pt\<lparr>pt_isCompleted := t_isCompleted updatedTask, pt_content := t_content updatedTask\<rparr>
      else pt)"

text \<open>
  The callback of \<^verbatim>\<open>prev.map\<close> assigns the local variable \<^verbatim>\<open>targetProject\<close>
  each time a project matches, so the variable is threaded through the traversal and the
  last matching project wins.
\<close>

fun updateProjects ::
  "Task \<Rightarrow> InternalProject list \<Rightarrow> InternalProject option
     \<Rightarrow> InternalProject list \<times> InternalProject option" where
  "updateProjects updatedTask [] targetProject = ([], targetProject)"
| "updateProjects updatedTask (p # prev) targetProject =
     (if Some (p_id p) = t_projectId updatedTask
      then (let updatedProjectTasks = map (updateProjectTask updatedTask) (p_tasks p);
                pUpdate = p\<lparr>p_tasks := updatedProjectTasks\<rparr>;
                (rest, target) = updateProjects updatedTask prev (Some pUpdate)
            in (pUpdate # rest, target))
      else (let (rest, target) = updateProjects updatedTask prev targetProject
            in (p # rest, target)))"

text \<open>
  The handler declares \<^verbatim>\<open>targetProject\<close> without a value, hands the updater to
  \<^verbatim>\<open>setProjects\<close> and then tests the variable: the updater has not run yet, so the
  test reads the declared value. The updater's second component is the value it leaves in
  the variable when React calls it, after the handler has returned.
\<close>

definition handleUpdateTask :: "Task \<Rightarrow> setState list \<times> request list" where
  "handleUpdateTask updatedTask =
     (if truthy (t_projectId updatedTask)
      then (let targetProject = None;
                queue = [SetProjects (\<lambda>prev. fst (updateProjects updatedTask prev targetProject))]
            in (queue,
                (case targetProject of
                   Some p \<Rightarrow> [SaveProjectAPI p]
                 | None \<Rightarrow> [])))
      else ([SetTasks (map (\<lambda>t. if t_id t = t_id updatedTask then updatedTask else t))],
            [SaveTaskAPI updatedTask]))"

subsection \<open>handleDeleteTask\<close>

text \<open>
  \<^verbatim>\<open>projects.find(p => p.tasks.some(pt => pt.id === taskId))\<close>: the first project that
  holds a ProjectTask with the id.
\<close>

definition findProjectTaskSource :: "InternalProject list \<Rightarrow> string \<Rightarrow> InternalProject option" where
  "findProjectTaskSource ps taskId =
     List.find (\<lambda>p. list_ex (\<lambda>pt. pt_id pt = taskId) (p_tasks p)) ps"

fun removeProjectTask ::
  "string \<Rightarrow> string \<Rightarrow> InternalProject list \<Rightarrow> InternalProject option
     \<Rightarrow> InternalProject list \<times> InternalProject option" where
  "removeProjectTask sourceId taskId [] updatedProject = ([], updatedProject)"
| "removeProjectTask sourceId taskId (p # prev) updatedProject =
     (if p_id p = sourceId
      then (let pUpdate = p\<lparr>p_tasks := filter (\<lambda>pt. pt_id pt \<noteq> taskId) (p_tasks p)\<rparr>;
                (rest, target) = removeProjectTask sourceId taskId prev (Some pUpdate)
            in (pUpdate # rest, target))
      else (let (rest, target) = removeProjectTask sourceId taskId prev updatedProject
            in (p # rest, target)))"

text \<open>
  \<^verbatim>\<open>projects\<close> is the list of the rendering the handler belongs to. In the project
  branch \<^verbatim>\<open>updatedProject\<close> is declared without a value and tested right after the
  updater has been queued, as in \<open>handleUpdateTask\<close>.
\<close>

definition handleDeleteTask :: "AppState \<Rightarrow> string \<Rightarrow> setState list \<times> request list" where
  "handleDeleteTask s taskId =
     (case findProjectTaskSource (projects s) taskId of
        Some projectTaskSource \<Rightarrow>
          (let updatedProject = None;
               queue = [SetProjects (\<lambda>prev.
                          fst (removeProjectTask (p_id projectTaskSource) taskId prev updatedProject))]
           in (queue,
               (case updatedProject of
                  Some p \<Rightarrow> [SaveProjectAPI p]
                | None \<Rightarrow> [])))
      | None \<Rightarrow>
          ([SetTasks (filter (\<lambda>t. t_id t \<noteq> taskId))], [DeleteTaskAPI taskId]))"

section \<open>Persistent store (database.js)\<close>

text \<open>
  One record per table, one field per column. A table is the list of its rows in rowid
  order, which is the order \<^verbatim>\<open>SELECT *\<close> returns them in. Columns that the code
  can leave NULL are options; INTEGER flags are integers.
\<close>

record user_row =
  ur_id :: string
  ur_email :: string
  ur_passwordHash :: string
  ur_name :: string
  ur_createdAt :: string

record engagement_row =
  er_id :: string
  er_userId :: "string option"
  er_engagementNumber :: string
  er_orgId :: string
  er_accountName :: string
  er_name :: string
  er_status :: string
  er_timeline :: "string option"
  er_files :: "string option"
  er_aiSummary :: "string option"
  er_lastSummaryDate :: "string option"

record task_row =
  tr_id :: string
  tr_userId :: "string option"
  tr_content :: string
  tr_isCompleted :: int
  tr_type :: string
  tr_date :: string
  tr_createdAt :: string
  tr_isPriority :: int
  tr_engagementId :: "string option"
  tr_projectId :: "string option"
  tr_subtasks :: "string option"

record project_row =
  pr_id :: string
  pr_userId :: "string option"
  pr_name :: string
  pr_description :: string
  pr_status :: string
  pr_startDate :: string
  pr_dueDate :: string
  pr_createdAt :: string
  pr_sourceIdeaId :: "string option"
  pr_sourceIdeaTitle :: "string option"
  pr_sourceEngagementId :: "string option"
  pr_sourceEngagementName :: "string option"

record project_task_row =
  ptr_id :: string
  ptr_projectId :: string
  ptr_content :: string
  ptr_isCompleted :: int

record research_note_row =
  rnr_id :: string
  rnr_projectId :: string
  rnr_content :: string
  rnr_date :: string
  rnr_createdAt :: string

record highlight_row =
  hr_id :: string
  hr_userId :: "string option"
  hr_content :: string
  hr_impact :: string
  hr_date :: string
  hr_needsFollowUp :: int
  hr_followUpContext :: "string option"
  hr_createdAt :: string

record idea_row =
  ir_id :: string
  ir_userId :: "string option"
  ir_title :: string
  ir_description :: string
  ir_entries :: "string option"
  ir_category :: string
  ir_priority :: string
  ir_status :: string
  ir_createdAt :: string
  ir_updatedAt :: "string option"
  ir_aiSummary :: "string option"
  ir_lastSummaryDate :: "string option"
  ir_engagementId :: "string option"
  ir_engagementName :: "string option"
  ir_convertedToProjectId :: "string option"

record calendar_event_row =
  cr_id :: string
  cr_userId :: "string option"
  cr_title :: string
  cr_description :: "string option"
  cr_date :: string
  cr_startTime :: string
  cr_endTime :: string
  cr_type :: string
  cr_meetingNotes :: "string option"
  cr_momSent :: int

record useful_link_row =
  lr_id :: string
  lr_userId :: "string option"
  lr_title :: string
  lr_url :: string
  lr_category :: string
  lr_description :: "string option"
  lr_createdAt :: string

record note_row =
  nr_id :: string
  nr_userId :: "string option"
  nr_title :: string
  nr_content :: string
  nr_tags :: "string option"
  nr_createdAt :: string
  nr_updatedAt :: string

record settings_row =
  sr_key :: string
  sr_value :: string
  sr_userId :: "string option"

record db =
  db_users :: "user_row list"
  db_engagements :: "engagement_row list"
  db_tasks :: "task_row list"
  db_projects :: "project_row list"
  db_project_tasks :: "project_task_row list"
  db_research_notes :: "research_note_row list"
  db_highlights :: "highlight_row list"
  db_ideas :: "idea_row list"
  db_calendar_events :: "calendar_event_row list"
  db_useful_links :: "useful_link_row list"
  db_notes :: "note_row list"
  db_settings :: "settings_row list"

text \<open>
  \<^verbatim>\<open>INSERT OR REPLACE\<close>: the row with the same primary key, if any, is deleted and the
  new row is added at the end. It cannot fail on the key.
\<close>

definition insert_or_replace :: "('r \<Rightarrow> string) \<Rightarrow> 'r \<Rightarrow> 'r list \<Rightarrow> 'r list" where
  "insert_or_replace key r tbl = filter (\<lambda>x. key x \<noteq> key r) tbl @ [r]"

text \<open>
  Plain \<^verbatim>\<open>INSERT\<close>: a row whose primary key is already in the table violates the
  constraint; the statement fails (\<open>None\<close>) and the table stays as it is.
\<close>

definition insert_row :: "('r \<Rightarrow> string) \<Rightarrow> 'r \<Rightarrow> 'r list \<Rightarrow> 'r list option" where
  "insert_row key r tbl = (if list_ex (\<lambda>x. key x = key r) tbl then None else Some (tbl @ [r]))"

text \<open>
  A prepared statement run without a callback (\<^verbatim>\<open>stmtTask.run(...)\<close>): when it
  fails, its row is not written. The driver reports the failure on the statement object,
  which the handler does not look at; the other statements are taken to run as queued.
\<close>

definition run_insert :: "('r \<Rightarrow> string) \<Rightarrow> 'r list \<Rightarrow> 'r \<Rightarrow> 'r list" where
  "run_insert key tbl r = (case insert_row key r tbl of None \<Rightarrow> tbl | Some tbl' \<Rightarrow> tbl')"

text \<open>The boolean to INTEGER conversion \<^verbatim>\<open>b ? 1 : 0\<close> and its inverse \<^verbatim>\<open>!!n\<close>.\<close>

definition flag :: "bool \<Rightarrow> int" where
  "flag b = (if b then 1 else 0)"

definition flag_opt :: "bool option \<Rightarrow> int" where
  "flag_opt b = (if b = Some True then 1 else 0)"

definition not_not :: "int \<Rightarrow> bool" where
  "not_not n = (n \<noteq> 0)"

text \<open>
  \<^verbatim>\<open>x || []\<close> for a JSON body field: every falsy value (absent, null, false, 0, the
  empty string) gives the empty array. \<^verbatim>\<open>r.col || '[]'\<close> for a TEXT column.
\<close>

fun json_truthy :: "json option \<Rightarrow> bool" where
  "json_truthy None = False"
| "json_truthy (Some JNull) = False"
| "json_truthy (Some (JBool b)) = b"
| "json_truthy (Some (JNum n)) = (n \<noteq> 0)"
| "json_truthy (Some (JStr s)) = (s \<noteq> [])"
| "json_truthy (Some (JArr vs)) = True"
| "json_truthy (Some (JObj kvs)) = True"

definition or_empty_array :: "json option \<Rightarrow> json" where
  "or_empty_array x = (case x of None \<Rightarrow> JArr [] | Some v \<Rightarrow> if json_truthy x then v else JArr [])"

definition or_empty_text :: "string option \<Rightarrow> string" where
  "or_empty_text x = or_default x ''[]''"

section \<open>REST boundary (server.js)\<close>

text \<open>
  \<^verbatim>\<open>res.json(body)\<close> is \<open>Json body\<close>; \<^verbatim>\<open>res.status(n).json({ error: m })\<close> is
  \<open>Error n m\<close>. Every handler below runs behind \<^verbatim>\<open>authMiddleware\<close>, so it gets
  the \<^verbatim>\<open>userId\<close> of the token.
\<close>

datatype 'a response = Json 'a | Error nat string

subsection \<open>Tasks\<close>

definition task_row_of :: "string \<Rightarrow> Task \<Rightarrow> task_row" where
  "task_row_of userId t =
     \<lparr>tr_id = t_id t, tr_userId = Some userId, tr_content = t_content t,
      tr_isCompleted = flag (t_isCompleted t), tr_type = t_type t, tr_date = t_date t,
      tr_createdAt = t_createdAt t, tr_isPriority = flag_opt (t_isPriority t),
      tr_engagementId = t_engagementId t, tr_projectId = None,
      tr_subtasks = Some (JSON_stringify (or_empty_array (t_subtasks t)))\<rparr>"

definition post_task :: "db \<Rightarrow> string \<Rightarrow> Task \<Rightarrow> db" where
  "post_task d userId t =
     d\<lparr>db_tasks := insert_or_replace tr_id (task_row_of userId t) (db_tasks d)\<rparr>"

text \<open>
  The object \<^verbatim>\<open>{ ...r, isCompleted: !!r.isCompleted, ... }\<close> is the row together with
  the properties that replace the row's own.
\<close>

record task_view =
  tv_row :: task_row
  tv_isCompleted :: bool
  tv_isPriority :: bool
  tv_subtasks :: json

definition format_task :: "task_row \<Rightarrow> task_view option" where
  "format_task r =
     map_option (\<lambda>subtasks. \<lparr>tv_row = r, tv_isCompleted = not_not (tr_isCompleted r),
                              tv_isPriority = not_not (tr_isPriority r), tv_subtasks = subtasks\<rparr>)
       (JSON_parse (or_empty_text (tr_subtasks r)))"

definition get_tasks :: "db \<Rightarrow> string \<Rightarrow> task_view list option" where
  "get_tasks d userId = those (map format_task (filter (\<lambda>r. tr_userId r = Some userId) (db_tasks d)))"

subsection \<open>Projects\<close>

definition project_row_of :: "string \<Rightarrow> InternalProject \<Rightarrow> project_row" where
  "project_row_of userId p =
     \<lparr>pr_id = p_id p, pr_userId = Some userId, pr_name = p_name p,
      pr_description = p_description p, pr_status = p_status p, pr_startDate = p_startDate p,
      pr_dueDate = p_dueDate p, pr_createdAt = p_createdAt p,
      pr_sourceIdeaId = js_or (p_sourceIdeaId p) None,
      pr_sourceIdeaTitle = js_or (p_sourceIdeaTitle p) None,
      pr_sourceEngagementId = js_or (p_sourceEngagementId p) None,
      pr_sourceEngagementName = js_or (p_sourceEngagementName p) None\<rparr>"

definition project_task_row_of :: "string \<Rightarrow> ProjectTask \<Rightarrow> project_task_row" where
  "project_task_row_of projectId t =
     \<lparr>ptr_id = pt_id t, ptr_projectId = projectId, ptr_content = pt_content t,
      ptr_isCompleted = flag (pt_isCompleted t)\<rparr>"

definition research_note_row_of :: "string \<Rightarrow> ResearchNote \<Rightarrow> research_note_row" where
  "research_note_row_of projectId n =
     \<lparr>rnr_id = rn_id n, rnr_projectId = projectId, rnr_content = rn_content n,
      rnr_date = rn_date n, rnr_createdAt = rn_createdAt n\<rparr>"

definition post_project :: "db \<Rightarrow> string \<Rightarrow> InternalProject \<Rightarrow> db" where
  "post_project d userId p =
     (let d1 = d\<lparr>db_projects := insert_or_replace pr_id (project_row_of userId p) (db_projects d)\<rparr>;
          d2 = d1\<lparr>db_project_tasks :=
                    filter (\<lambda>r. ptr_projectId r \<noteq> p_id p) (db_project_tasks d1)\<rparr>;
          d3 = d2\<lparr>db_research_notes :=
                    filter (\<lambda>r. rnr_projectId r \<noteq> p_id p) (db_research_notes d2)\<rparr>;
          d4 = d3\<lparr>db_project_tasks :=
                    foldl (run_insert ptr_id) (db_project_tasks d3)
                      (map (project_task_row_of (p_id p)) (p_tasks p))\<rparr>;
          d5 = d4\<lparr>db_research_notes :=
                    foldl (run_insert rnr_id) (db_research_notes d4)
                      (map (research_note_row_of (p_id p)) (p_researchNotes p))\<rparr>
      in d5)"

record project_task_view =
  ptv_row :: project_task_row
  ptv_isCompleted :: bool

record project_view =
  pv_row :: project_row
  pv_tasks :: "project_task_view list"
  pv_researchNotes :: "research_note_row list"

definition get_projects :: "db \<Rightarrow> string \<Rightarrow> project_view list" where
  "get_projects d userId =
     map (\<lambda>p. \<lparr>pv_row = p,
                pv_tasks = map (\<lambda>t. \<lparr>ptv_row = t, ptv_isCompleted = not_not (ptr_isCompleted t)\<rparr>)
                             (filter (\<lambda>t. ptr_projectId t = pr_id p) (db_project_tasks d)),
                pv_researchNotes = filter (\<lambda>n. rnr_projectId n = pr_id p) (db_research_notes d)\<rparr>)
         (filter (\<lambda>p. pr_userId p = Some userId) (db_projects d))"

subsection \<open>Idea to project conversion\<close>

record ConvertBody =
  cb_name :: "string option"
  cb_description :: "string option"
  cb_status :: "string option"
  cb_startDate :: "string option"
  cb_dueDate :: "string option"

text \<open>
  The handler reads the clock and the random generator: \<open>dateNow\<close> is the decimal text
  of \<^verbatim>\<open>Date.now()\<close>, \<open>rnd\<close> is \<^verbatim>\<open>Math.random().toString(36).substr(2, 9)\<close> and
  \<open>now\<close> is \<^verbatim>\<open>new Date().toISOString()\<close>.
\<close>

definition projectId_of :: "string \<Rightarrow> string \<Rightarrow> string" where
  "projectId_of dateNow rnd = ''proj-'' @ dateNow @ ''-'' @ rnd"

definition convert_to_project ::
  "db \<Rightarrow> string \<Rightarrow> string \<Rightarrow> ConvertBody \<Rightarrow> string \<Rightarrow> string \<Rightarrow> string
     \<Rightarrow> db \<times> InternalProject response" where
  "convert_to_project d userId ideaId projectData dateNow rnd now =
     (case List.find (\<lambda>i. ir_id i = ideaId \<and> ir_userId i = Some userId) (db_ideas d) of
        None \<Rightarrow> (d, Error 404 ''Idea not found'')
      | Some idea \<Rightarrow>
          (let projectId = projectId_of dateNow rnd;
               projectName = or_default (cb_name projectData) (ir_title idea);
               projectDescription = or_default (cb_description projectData) (ir_description idea);
               projectStatus = or_default (cb_status projectData) ''Not Started'';
               startDate = or_default (cb_startDate projectData) (take 10 now);
               dueDate = or_default (cb_dueDate projectData) '''';
               row = \<lparr>pr_id = projectId, pr_userId = Some userId, pr_name = projectName,
                      pr_description = projectDescription, pr_status = projectStatus,
                      pr_startDate = startDate, pr_dueDate = dueDate, pr_createdAt = now,
                      pr_sourceIdeaId = Some (ir_id idea),
                      pr_sourceIdeaTitle = Some (ir_title idea),
                      pr_sourceEngagementId = js_or (ir_engagementId idea) None,
                      pr_sourceEngagementName = js_or (ir_engagementName idea) None\<rparr>
           in (case insert_row pr_id row (db_projects d) of
                 None \<Rightarrow> (d, Error 500 ''SQLITE_CONSTRAINT: UNIQUE constraint failed: projects.id'')
               | Some projects' \<Rightarrow>
                   (d\<lparr>db_projects := projects',
                      db_ideas :=
                        map (\<lambda>i. if ir_id i = ideaId \<and> ir_userId i = Some userId
                                  then i\<lparr>ir_convertedToProjectId := Some projectId,
                                         ir_status := ''Implemented''\<rparr>
                                  else i) (db_ideas d)\<rparr>,
                    Json \<lparr>p_id = projectId, p_name = projectName,
                          p_description = projectDescription, p_status = projectStatus,
                          p_startDate = startDate, p_dueDate = dueDate,
                          p_tasks = [], p_researchNotes = [], p_createdAt = now,
                          p_sourceIdeaId = Some (ir_id idea),
                          p_sourceIdeaTitle = Some (ir_title idea),
                          p_sourceEngagementId = js_or (ir_engagementId idea) None,
                          p_sourceEngagementName = js_or (ir_engagementName idea) None\<rparr>))))"

subsection \<open>Registration\<close>

text \<open>
  The three fields of the request body are JavaScript strings, or absent.
\<close>

record RegisterBody =
  rb_email :: "jsstring option"
  rb_password :: "jsstring option"
  rb_name :: "jsstring option"

text \<open>
  The users table has a primary key on \<^verbatim>\<open>id\<close> and \<^verbatim>\<open>email TEXT UNIQUE\<close>: the
  insert fails when either is taken.
\<close>

definition insert_user :: "user_row \<Rightarrow> user_row list \<Rightarrow> user_row list option" where
  "insert_user r tbl =
     (if list_ex (\<lambda>x. ur_id x = ur_id r \<or> ur_email x = ur_email r) tbl then None
      else Some (tbl @ [r]))"

text \<open>
  \<open>toLowerCase\<close> is \<^verbatim>\<open>String.prototype.toLowerCase\<close>: it maps a string through the
  Unicode case tables of the platform, which are not part of the repository, so the handler
  takes the function as a parameter. \<open>passwordHash\<close> is the result of
  \<^verbatim>\<open>bcrypt.hash(password, SALT_ROUNDS)\<close>; \<open>dateNow\<close>, \<open>rnd\<close> and \<open>now\<close> are read
  from the clock and the random generator as above. The lower-cased email and the name
  reach the statements through the driver, in UTF-8.
\<close>

definition register ::
  "(jsstring \<Rightarrow> jsstring) \<Rightarrow> db \<Rightarrow> RegisterBody \<Rightarrow> string \<Rightarrow> string \<Rightarrow> string \<Rightarrow> string
     \<Rightarrow> db \<times> string response" where
  "register toLowerCase d body passwordHash dateNow rnd now =
     (if \<not> truthy (rb_email body) \<or> \<not> truthy (rb_password body) \<or> \<not> truthy (rb_name body)
      then (d, Error 400 ''Email, password, and name are required'')
      else (case (rb_email body, rb_password body, rb_name body) of
              (Some email, Some password, Some name) \<Rightarrow>
                if length password < 6
                then (d, Error 400 ''Password must be at least 6 characters'')
                else (case List.find (\<lambda>u. ur_email u = utf8 (toLowerCase email)) (db_users d) of
                        Some row \<Rightarrow> (d, Error 400 ''Email already registered'')
                      | None \<Rightarrow>
                          (case insert_user
                                  \<lparr>ur_id = ''user-'' @ dateNow @ ''-'' @ rnd,
                                   ur_email = utf8 (toLowerCase email),
                                   ur_passwordHash = passwordHash, ur_name = utf8 name,
                                   ur_createdAt = now\<rparr> (db_users d) of
                             None \<Rightarrow> (d, Error 500 ''SQLITE_CONSTRAINT: UNIQUE constraint failed'')
                           | Some users' \<Rightarrow> (d\<lparr>db_users := users'\<rparr>, Json ''Registration successful'')))
            | _ \<Rightarrow> (d, Error 400 ''Email, password, and name are required'')))"

subsection \<open>Engagements\<close>

record Engagement =
  e_id :: string
  e_engagementNumber :: string
  e_orgId :: string
  e_accountName :: string
  e_name :: string
  e_status :: string
  e_timeline :: "json option"
  e_files :: "json option"
  e_aiSummary :: "string option"
  e_lastSummaryDate :: "string option"

definition engagement_row_of :: "string \<Rightarrow> Engagement \<Rightarrow> engagement_row" where
  "engagement_row_of userId e =
     \<lparr>er_id = e_id e, er_userId = Some userId, er_engagementNumber = e_engagementNumber e,
      er_orgId = e_orgId e, er_accountName = e_accountName e, er_name = e_name e,
      er_status = e_status e,
      er_timeline = Some (JSON_stringify (or_empty_array (e_timeline e))),
      er_files = Some (JSON_stringify (or_empty_array (e_files e))),
      er_aiSummary = e_aiSummary e, er_lastSummaryDate = e_lastSummaryDate e\<rparr>"

definition post_engagement :: "db \<Rightarrow> string \<Rightarrow> Engagement \<Rightarrow> db" where
  "post_engagement d userId e =
     d\<lparr>db_engagements := insert_or_replace er_id (engagement_row_of userId e) (db_engagements d)\<rparr>"

record engagement_view =
  ev_row :: engagement_row
  ev_timeline :: json
  ev_files :: json

definition format_engagement :: "engagement_row \<Rightarrow> engagement_view option" where
  "format_engagement r =
     (case JSON_parse (or_empty_text (er_timeline r)) of
        None \<Rightarrow> None
      | Some timeline \<Rightarrow>
          (case JSON_parse (or_empty_text (er_files r)) of
             None \<Rightarrow> None
           | Some files \<Rightarrow> Some \<lparr>ev_row = r, ev_timeline = timeline, ev_files = files\<rparr>))"

definition get_engagements :: "db \<Rightarrow> string \<Rightarrow> engagement_view list option" where
  "get_engagements d userId =
     those (map format_engagement (filter (\<lambda>r. er_userId r = Some userId) (db_engagements d)))"

subsection \<open>Highlights\<close>

record Highlight =
  h_id :: string
  h_content :: string
  h_impact :: string
  h_date :: string
  h_needsFollowUp :: bool
  h_followUpContext :: "string option"
  h_createdAt :: string

definition highlight_row_of :: "string \<Rightarrow> Highlight \<Rightarrow> highlight_row" where
  "highlight_row_of userId h =
     \<lparr>hr_id = h_id h, hr_userId = Some userId, hr_content = h_content h, hr_impact = h_impact h,
      hr_date = h_date h, hr_needsFollowUp = flag (h_needsFollowUp h),
      hr_followUpContext = h_followUpContext h, hr_createdAt = h_createdAt h\<rparr>"

definition post_highlight :: "db \<Rightarrow> string \<Rightarrow> Highlight \<Rightarrow> db" where
  "post_highlight d userId h =
     d\<lparr>db_highlights := insert_or_replace hr_id (highlight_row_of userId h) (db_highlights d)\<rparr>"

record highlight_view =
  hv_row :: highlight_row
  hv_needsFollowUp :: bool

definition get_highlights :: "db \<Rightarrow> string \<Rightarrow> highlight_view list" where
  "get_highlights d userId =
     map (\<lambda>r. \<lparr>hv_row = r, hv_needsFollowUp = not_not (hr_needsFollowUp r)\<rparr>)
         (filter (\<lambda>r. hr_userId r = Some userId) (db_highlights d))"

subsection \<open>Calendar events\<close>

record CalendarEvent =
  c_id :: string
  c_title :: string
  c_description :: "string option"
  c_date :: string
  c_startTime :: string
  c_endTime :: string
  c_type :: string
  c_meetingNotes :: "string option"
  c_momSent :: "bool option"

definition calendar_event_row_of :: "string \<Rightarrow> CalendarEvent \<Rightarrow> calendar_event_row" where
  "calendar_event_row_of userId e =
     \<lparr>cr_id = c_id e, cr_userId = Some userId, cr_title = c_title e,
      cr_description = c_description e, cr_date = c_date e, cr_startTime = c_startTime e,
      cr_endTime = c_endTime e, cr_type = c_type e, cr_meetingNotes = c_meetingNotes e,
      cr_momSent = flag_opt (c_momSent e)\<rparr>"

definition post_calendar :: "db \<Rightarrow> string \<Rightarrow> CalendarEvent \<Rightarrow> db" where
  "post_calendar d userId e =
     d\<lparr>db_calendar_events :=
         insert_or_replace cr_id (calendar_event_row_of userId e) (db_calendar_events d)\<rparr>"

record calendar_event_view =
  cv_row :: calendar_event_row
  cv_momSent :: bool

definition get_calendar :: "db \<Rightarrow> string \<Rightarrow> calendar_event_view list" where
  "get_calendar d userId =
     map (\<lambda>r. \<lparr>cv_row = r, cv_momSent = not_not (cr_momSent r)\<rparr>)
         (filter (\<lambda>r. cr_userId r = Some userId) (db_calendar_events d))"

subsection \<open>Notes\<close>

record Note =
  n_id :: string
  n_title :: string
  n_content :: string
  n_tags :: "json option"
  n_createdAt :: string
  n_updatedAt :: string

definition note_row_of :: "string \<Rightarrow> Note \<Rightarrow> note_row" where
  "note_row_of userId n =
     \<lparr>nr_id = n_id n, nr_userId = Some userId, nr_title = n_title n, nr_content = n_content n,
      nr_tags = Some (JSON_stringify (or_empty_array (n_tags n))),
      nr_createdAt = n_createdAt n, nr_updatedAt = n_updatedAt n\<rparr>"

definition post_note :: "db \<Rightarrow> string \<Rightarrow> Note \<Rightarrow> db" where
  "post_note d userId n =
     d\<lparr>db_notes := insert_or_replace nr_id (note_row_of userId n) (db_notes d)\<rparr>"

record note_view =
  nv_row :: note_row
  nv_tags :: json

definition format_note :: "note_row \<Rightarrow> note_view option" where
  "format_note r =
     map_option (\<lambda>tags. \<lparr>nv_row = r, nv_tags = tags\<rparr>) (JSON_parse (or_empty_text (nr_tags r)))"

definition get_notes :: "db \<Rightarrow> string \<Rightarrow> note_view list option" where
  "get_notes d userId =
     those (map format_note (filter (\<lambda>r. nr_userId r = Some userId) (db_notes d)))"

subsection \<open>Ideas\<close>

record IdeaEntry =
  ie_id :: string
  ie_content :: string
  ie_timestamp :: string

record Idea =
  i_id :: string
  i_title :: string
  i_description :: "string option"
  i_entries :: "IdeaEntry list option"
  i_category :: string
  i_priority :: string
  i_status :: string
  i_createdAt :: string
  i_updatedAt :: "string option"
  i_aiSummary :: "string option"
  i_lastSummaryDate :: "string option"
  i_engagementId :: "string option"
  i_engagementName :: "string option"
  i_convertedToProjectId :: "string option"

text \<open>The JSON object of an entry, with its properties in declaration order.\<close>

definition entry_json :: "IdeaEntry \<Rightarrow> json" where
  "entry_json e =
     JObj [(''id'', JStr (ie_id e)), (''content'', JStr (ie_content e)),
           (''timestamp'', JStr (ie_timestamp e))]"

definition entries_json :: "IdeaEntry list \<Rightarrow> json" where
  "entries_json es = JArr (map entry_json es)"

text \<open>
  An array is truthy even when it is empty, so \<^verbatim>\<open>i.entries || []\<close> replaces only an
  absent field.
\<close>

definition idea_row_of :: "string \<Rightarrow> Idea \<Rightarrow> idea_row" where
  "idea_row_of userId i =
     (let entriesJson = JSON_stringify (entries_json (case i_entries i of None \<Rightarrow> [] | Some es \<Rightarrow> es));
          description = (case i_entries i of
                           Some (e # es) \<Rightarrow> ie_content e
                         | _ \<Rightarrow> or_default (i_description i) '''')
      in \<lparr>ir_id = i_id i, ir_userId = Some userId, ir_title = i_title i,
          ir_description = description, ir_entries = Some entriesJson,
          ir_category = i_category i, ir_priority = i_priority i, ir_status = i_status i,
          ir_createdAt = i_createdAt i, ir_updatedAt = js_or (i_updatedAt i) None,
          ir_aiSummary = js_or (i_aiSummary i) None,
          ir_lastSummaryDate = js_or (i_lastSummaryDate i) None,
          ir_engagementId = js_or (i_engagementId i) None,
          ir_engagementName = js_or (i_engagementName i) None,
          ir_convertedToProjectId = js_or (i_convertedToProjectId i) None\<rparr>)"

definition post_idea :: "db \<Rightarrow> string \<Rightarrow> Idea \<Rightarrow> db" where
  "post_idea d userId i =
     d\<lparr>db_ideas := insert_or_replace ir_id (idea_row_of userId i) (db_ideas d)\<rparr>"

record idea_view =
  iv_row :: idea_row
  iv_entries :: json

text \<open>
  The read handler catches the SyntaxError of \<^verbatim>\<open>JSON.parse\<close> and goes on with the
  empty array. When the parsed value has length 0 (the empty array, or the empty string) and
  the description is not blank, it answers with one entry made from the description;
  \<open>now\<close> is the clock's ISO time, used when the row has no creation time.
\<close>

definition format_idea :: "string \<Rightarrow> idea_row \<Rightarrow> idea_view" where
  "format_idea now r =
     (let entries = (case JSON_parse (or_empty_text (ir_entries r)) of
                       None \<Rightarrow> JArr []
                     | Some v \<Rightarrow> v);
          entries' = (if (entries = JArr [] \<or> entries = JStr []) \<and> ir_description r \<noteq> [] \<and>
                         \<not> trimIsEmpty (ir_description r)
                      then JArr [JObj [(''id'', JStr (''legacy-'' @ ir_id r)),
                                       (''content'', JStr (ir_description r)),
                                       (''timestamp'',
                                        JStr (if ir_createdAt r \<noteq> [] then ir_createdAt r else now))]]
                      else entries)
      in \<lparr>iv_row = r, iv_entries = entries'\<rparr>)"

definition get_ideas :: "db \<Rightarrow> string \<Rightarrow> string \<Rightarrow> idea_view list" where
  "get_ideas d userId now =
     map (format_idea now) (filter (\<lambda>r. ir_userId r = Some userId) (db_ideas d))"

section \<open>Startup and the multi-tenancy migration (database.js)\<close>

definition RISHAV_EMAIL :: string where
  "RISHAV_EMAIL = ''newrishav@gmail.com''"

text \<open>
  The callback that \<^verbatim>\<open>migrateToMultiTenancy\<close> hands to \<^verbatim>\<open>setTimeout\<close>: it looks
  the user up with \<^verbatim>\<open>LOWER(email) = LOWER(?)\<close> and, when there is one, runs
  \<^verbatim>\<open>UPDATE t SET userId = ? WHERE userId IS NULL\<close> on the eight tables of the list and on
  settings.
\<close>

definition migration_callback :: "db \<Rightarrow> db" where
  "migration_callback d =
     (case List.find (\<lambda>u. LOWER (ur_email u) = LOWER RISHAV_EMAIL) (db_users d) of
        None \<Rightarrow> d
      | Some user \<Rightarrow>
          d\<lparr>db_engagements :=
               map (\<lambda>r. if er_userId r = None then r\<lparr>er_userId := Some (ur_id user)\<rparr> else r)
                   (db_engagements d),
             db_tasks :=
               map (\<lambda>r. if tr_userId r = None then r\<lparr>tr_userId := Some (ur_id user)\<rparr> else r)
                   (db_tasks d),
             db_projects :=
               map (\<lambda>r. if pr_userId r = None then r\<lparr>pr_userId := Some (ur_id user)\<rparr> else r)
                   (db_projects d),
             db_highlights :=
               map (\<lambda>r. if hr_userId r = None then r\<lparr>hr_userId := Some (ur_id user)\<rparr> else r)
                   (db_highlights d),
             db_ideas :=
               map (\<lambda>r. if ir_userId r = None then r\<lparr>ir_userId := Some (ur_id user)\<rparr> else r)
                   (db_ideas d),
             db_calendar_events :=
               map (\<lambda>r. if cr_userId r = None then r\<lparr>cr_userId := Some (ur_id user)\<rparr> else r)
                   (db_calendar_events d),
             db_useful_links :=
               map (\<lambda>r. if lr_userId r = None then r\<lparr>lr_userId := Some (ur_id user)\<rparr> else r)
                   (db_useful_links d),
             db_notes :=
               map (\<lambda>r. if nr_userId r = None then r\<lparr>nr_userId := Some (ur_id user)\<rparr> else r)
                   (db_notes d),
             db_settings :=
               map (\<lambda>r. if sr_userId r = None then r\<lparr>sr_userId := Some (ur_id user)\<rparr> else r)
                   (db_settings d)\<rparr>)"

text \<open>
  The server process as the event loop runs it. Loading the module creates the database
  handle and, at the end of server.js, calls \<^verbatim>\<open>app.listen\<close>; nothing else waits for
  the database. The handle's open callback runs \<^verbatim>\<open>initDatabase\<close>, whose last
  statement is \<^verbatim>\<open>migrateToMultiTenancy()\<close>: that arms a 500 ms timer. When the timer
  elapses the callback above runs, and the timer, set with \<^verbatim>\<open>setTimeout\<close>, is
  spent. A request is handled whenever it arrives at a listening server whose database is
  open. \<open>sv_migrations\<close> counts the runs of the callback and \<open>sv_served\<close> records
  the answers to \<^verbatim>\<open>GET /api/tasks\<close>.
\<close>

record server =
  sv_db :: db
  sv_listening :: bool
  sv_opened :: bool
  sv_timer :: bool
  sv_migrations :: nat
  sv_served :: "task_view list option list"

datatype event = ModuleLoaded | DatabaseOpened | TimerElapsed | GetTasks string

definition boot :: "db \<Rightarrow> server" where
  "boot d = \<lparr>sv_db = d, sv_listening = False, sv_opened = False, sv_timer = False,
             sv_migrations = 0, sv_served = []\<rparr>"

fun step :: "server \<Rightarrow> event \<Rightarrow> server option" where
  "step s ModuleLoaded =
     (if sv_listening s then None else Some (s\<lparr>sv_listening := True\<rparr>))"
| "step s DatabaseOpened =
     (if sv_listening s \<and> \<not> sv_opened s then Some (s\<lparr>sv_opened := True, sv_timer := True\<rparr>)
      else None)"
| "step s TimerElapsed =
     (if sv_timer s
      then Some (s\<lparr>sv_timer := False, sv_migrations := Suc (sv_migrations s),
                 sv_db := migration_callback (sv_db s)\<rparr>)
      else None)"
| "step s (GetTasks userId) =
     (if sv_listening s \<and> sv_opened s
      then Some (s\<lparr>sv_served := sv_served s @ [get_tasks (sv_db s) userId]\<rparr>)
      else None)"

fun run :: "server \<Rightarrow> event list \<Rightarrow> server option" where
  "run s [] = Some s"
| "run s (e # es) = (case step s e of None \<Rightarrow> None | Some s' \<Rightarrow> run s' es)"

section \<open>Auxiliary notions for the proofs\<close>

text \<open>The text of one property of an object, as SerializeJSONProperty writes it.\<close>

definition SerializeMember :: "string \<times> json \<Rightarrow> string" where
  "SerializeMember kv = QuoteJSONString (fst kv) @ CHR '':'' # SerializeJSONProperty (snd kv)"

text \<open>A number token ends where the rest of the text does not go on with a digit.\<close>

definition endsNumber :: "string \<Rightarrow> bool" where
  "endsNumber r = (case r of [] \<Rightarrow> True | c # _ \<Rightarrow> \<not> isDigit c)"

section \<open>Example data\<close>


definition ex_p1 :: InternalProject where
  "ex_p1 =
     \<lparr>p_id = ''p-1'', p_name = ''Certification: AWS SA'', p_description = ''Study for exam'',
      p_status = ''In Progress'', p_startDate = ''2023-12-22'', p_dueDate = ''2024-01-21'',
      p_tasks = [\<lparr>pt_id = ''pt-1'', pt_content = ''Complete Section 1-4'', pt_isCompleted = True\<rparr>,
                 \<lparr>pt_id = ''pt-2'', pt_content = ''Take practice exam 1'', pt_isCompleted = False\<rparr>],
      p_researchNotes = [\<lparr>rn_id = ''rn-1'', rn_date = ''2023-12-30'',
                          rn_content = ''S3 consistency model changed'',
                          rn_createdAt = ''2024-01-01T09:00''\<rparr>],
      p_createdAt = ''2024-01-01T09:00'', p_sourceIdeaId = None, p_sourceIdeaTitle = None,
      p_sourceEngagementId = None, p_sourceEngagementName = None\<rparr>"

definition ex_p2 :: InternalProject where
  "ex_p2 =
     \<lparr>p_id = ''p-2'', p_name = ''Internal Dev Tools'', p_description = ''Upgrade CLI'',
      p_status = ''Not Started'', p_startDate = ''2024-01-06'', p_dueDate = ''2024-01-31'',
      p_tasks = [\<lparr>pt_id = ''pt-4'', pt_content = ''Survey team'', pt_isCompleted = False\<rparr>],
      p_researchNotes = [],
      p_createdAt = ''2024-01-01T09:00'', p_sourceIdeaId = None, p_sourceIdeaTitle = None,
      p_sourceEngagementId = None, p_sourceEngagementName = None\<rparr>"


text \<open>The view of ProjectTask pt-2 in the master task list, ticked off by the user.\<close>

definition ex_update :: Task where
  "ex_update =
     \<lparr>t_id = ''pt-2'', t_content = ''Take practice exam 1'', t_isCompleted = True,
      t_type = ''daily'', t_date = ''2024-01-02'', t_createdAt = ''2024-01-01T09:00'',
      t_isPriority = None, t_subtasks = None, t_engagementId = None,
      t_engagementName = None, t_projectId = Some ''p-1'',
      t_projectName = Some ''Certification: AWS SA''\<rparr>"

text \<open>A store with one registered user, one idea of that user and one project.\<close>

definition empty_db :: db where
  "empty_db =
     \<lparr>db_users = [], db_engagements = [], db_tasks = [], db_projects = [],
      db_project_tasks = [], db_research_notes = [], db_highlights = [], db_ideas = [],
      db_calendar_events = [], db_useful_links = [], db_notes = [], db_settings = []\<rparr>"

definition ex_user :: user_row where
  "ex_user =
     \<lparr>ur_id = ''user-1'', ur_email = ''alice@example.com'', ur_passwordHash = ''$2b$10$hash'',
      ur_name = ''Alice'', ur_createdAt = ''2024-01-01T09:00''\<rparr>"

definition ex_idea1 :: idea_row where
  "ex_idea1 =
     \<lparr>ir_id = ''idea-1'', ir_userId = Some ''user-1'', ir_title = ''Automated Status Tool'',
      ir_description = ''Script for Jira'', ir_entries = None, ir_category = ''Process'',
      ir_priority = ''High'', ir_status = ''New'', ir_createdAt = ''2024-01-01T09:00'',
      ir_updatedAt = None, ir_aiSummary = None, ir_lastSummaryDate = None,
      ir_engagementId = None, ir_engagementName = None, ir_convertedToProjectId = None\<rparr>"

definition ex_db :: db where
  "ex_db = empty_db\<lparr>db_users := [ex_user], db_ideas := [ex_idea1],
                    db_projects := [project_row_of ''user-1'' ex_p1],
                    db_project_tasks := map (project_task_row_of ''p-1'') (p_tasks ex_p1),
                    db_research_notes := map (research_note_row_of ''p-1'') (p_researchNotes ex_p1)\<rparr>"

definition no_overrides :: ConvertBody where
  "no_overrides =
     \<lparr>cb_name = None, cb_description = None, cb_status = None, cb_startDate = None,
      cb_dueDate = None\<rparr>"



text \<open>
  Project p-1 as the user edited it: pt-1 removed, pt-2 ticked off, pt-3 added, the
  research note dropped. And project p-2 sent with a task whose id is already the id of a
  task of p-1, and sent with two tasks of the same id.
\<close>

definition ex_p1_edited :: InternalProject where
  "ex_p1_edited =
     ex_p1\<lparr>p_tasks := [\<lparr>pt_id = ''pt-2'', pt_content = ''Take practice exam 1'', pt_isCompleted = True\<rparr>,
                        \<lparr>pt_id = ''pt-3'', pt_content = ''Book the exam'', pt_isCompleted = False\<rparr>],
           p_researchNotes := []\<rparr>"

definition ex_p2_clash :: InternalProject where
  "ex_p2_clash =
     ex_p2\<lparr>p_tasks := [\<lparr>pt_id = ''pt-1'', pt_content = ''Survey team'', pt_isCompleted = False\<rparr>]\<rparr>"

definition ex_p2_twice :: InternalProject where
  "ex_p2_twice =
     ex_p2\<lparr>p_tasks := [\<lparr>pt_id = ''pt-4'', pt_content = ''Survey team'', pt_isCompleted = False\<rparr>,
                        \<lparr>pt_id = ''pt-4'', pt_content = ''Collect answers'', pt_isCompleted = False\<rparr>]\<rparr>"

text \<open>
  The JavaScript string that an ASCII literal denotes has one code unit for each of its
  characters. On a string of code units below 0x80, \<^verbatim>\<open>String.prototype.toLowerCase\<close>
  replaces the letters A to Z by a to z and nothing else; \<open>toLowerCaseASCII\<close> does that,
  and stands for the platform's function where a request made of such strings is evaluated.
\<close>

definition ascii :: "string \<Rightarrow> jsstring" where
  "ascii s = map (\<lambda>c. of_nat (of_char c)) s"

definition toLowerCaseASCII :: "jsstring \<Rightarrow> jsstring" where
  "toLowerCaseASCII s = map (\<lambda>u. if 0x41 \<le> unat u \<and> unat u \<le> 0x5A then u + 0x20 else u) s"

text \<open>
  Three registration requests for the email of the stored user, written with capitals: one
  well formed, one with a password of three letters, one with a password of three accented
  letters (U+00E9), which are three code units and six bytes.
\<close>

definition ex_register :: RegisterBody where
  "ex_register = \<lparr>rb_email = Some (ascii ''Alice@Example.com''),
                  rb_password = Some (ascii ''secret1''), rb_name = Some (ascii ''Alice'')\<rparr>"

definition ex_register_short :: RegisterBody where
  "ex_register_short = ex_register\<lparr>rb_password := Some (ascii ''abc'')\<rparr>"

definition ex_register_accents :: RegisterBody where
  "ex_register_accents = ex_register\<lparr>rb_password := Some [0xE9, 0xE9, 0xE9]\<rparr>"

text \<open>
  The seed task task-1 with its subtasks, and an idea saved with an empty list of entries
  and a description.
\<close>

definition ex_task1 :: Task where
  "ex_task1 =
     \<lparr>t_id = ''task-1'', t_content = ''Review Q3 financial reports'', t_isCompleted = False,
      t_type = ''daily'', t_date = ''2024-01-01'', t_createdAt = ''2024-01-01T09:00'',
      t_isPriority = Some True,
      t_subtasks = Some (JArr [JObj [(''id'', JStr ''st-1''), (''content'', JStr ''Check variance''),
                                     (''isCompleted'', JBool False)],
                               JObj [(''id'', JStr ''st-2''), (''content'', JStr ''Format slides''),
                                     (''isCompleted'', JBool True)]]),
      t_engagementId = None, t_engagementName = None, t_projectId = None,
      t_projectName = None\<rparr>"

definition ex_idea_body :: Idea where
  "ex_idea_body =
     \<lparr>i_id = ''idea-9'', i_title = ''Standup notes'', i_description = Some ''Keep it short'',
      i_entries = Some [], i_category = ''Team'', i_priority = ''Low'', i_status = ''New'',
      i_createdAt = ''2024-01-02T08:00'', i_updatedAt = None, i_aiSummary = None,
      i_lastSummaryDate = None, i_engagementId = None, i_engagementName = None,
      i_convertedToProjectId = None\<rparr>"

text \<open>
  What holds of the server process after any sequence of events from \<open>boot d\<close>: the
  database is opened only by a listening process, the timer is armed only once the database
  is open, the timer callback has run at most once, and the store is the initial one until
  that callback has run.
\<close>

definition startup_inv :: "db \<Rightarrow> server \<Rightarrow> bool" where
  "startup_inv d s =
     ((sv_opened s \<longrightarrow> sv_listening s) \<and>
      (sv_timer s \<longrightarrow> sv_opened s \<and> sv_migrations s = 0) \<and>
      (0 < sv_migrations s \<longrightarrow> sv_opened s) \<and>
      sv_migrations s \<le> 1 \<and>
      sv_db s = (if sv_migrations s = 0 then d else migration_callback d))"

text \<open>
  A store from before multi-tenancy: the designated user has registered, and the seed task
  task-3 has no userId yet.
\<close>

definition ex_legacy_user :: user_row where
  "ex_legacy_user =
     \<lparr>ur_id = ''user-r'', ur_email = ''newrishav@gmail.com'', ur_passwordHash = ''$2b$10$hash'',
      ur_name = ''Rishav'', ur_createdAt = ''2024-01-01T09:00''\<rparr>"

definition ex_orphan_task :: task_row where
  "ex_orphan_task =
     \<lparr>tr_id = ''task-3'', tr_userId = None, tr_content = ''Weekly team sync prep'',
      tr_isCompleted = 0, tr_type = ''daily'', tr_date = ''2024-01-01'',
      tr_createdAt = ''2024-01-01T09:00'', tr_isPriority = 0, tr_engagementId = None,
      tr_projectId = None, tr_subtasks = Some ''[]''\<rparr>"

definition ex_legacy_db :: db where
  "ex_legacy_db = empty_db\<lparr>db_users := [ex_legacy_user], db_tasks := [ex_orphan_task]\<rparr>"

section \<open>JSON.parse inverts JSON.stringify\<close>

lemma hexVal_hexDigit: "n < 16 \<Longrightarrow> hexVal (hexDigit n) = Some n"
  by (auto simp: hexVal_def hexDigit_def Let_def)

lemma hexVal_zero: "hexVal (CHR ''0'') = Some 0"
  by (simp add: hexVal_def)

lemma parseChars_QuoteJSONChar:
  "parseChars (QuoteJSONChar c @ r) = map_option (apfst ((#) c)) (parseChars r)"
proof -
  consider (q) "c = CHR 0x22" | (b) "c = CHR 0x5C" | (bs) "c = CHR 0x08" | (ff) "c = CHR 0x0C"
    | (nl) "c = CHR 0x0A" | (cr) "c = CHR 0x0D" | (tab) "c = CHR 0x09"
    | (ctl) "c \<notin> {CHR 0x22, CHR 0x5C, CHR 0x08, CHR 0x0C, CHR 0x0A, CHR 0x0D, CHR 0x09}" "(of_char c :: nat) < 32"
    | (plain) "c \<notin> {CHR 0x22, CHR 0x5C, CHR 0x08, CHR 0x0C, CHR 0x0A, CHR 0x0D, CHR 0x09}" "\<not> (of_char c :: nat) < 32"
    by blast
  then show ?thesis
  proof cases
    case ctl
    let ?n = "of_char c :: nat"
    have d: "?n div 16 < 16" "?n mod 16 < 16" using ctl(2) by auto
    have rebuild: "char_of (16 * (?n div 16) + ?n mod 16) = c" by simp
    show ?thesis using ctl d rebuild
      by (simp add: QuoteJSONChar_def hexVal_hexDigit hexVal_zero del: mult_div_mod_eq)
  qed (simp_all add: QuoteJSONChar_def unescape_def)
qed

lemma parseChars_quoted:
  "parseChars (concat (map QuoteJSONChar s) @ CHR 0x22 # r) = Some (s, r)"
  by (induction s) (simp_all add: parseChars_QuoteJSONChar)


lemma parseChars_QuoteJSONString:
  "parseChars (tl (QuoteJSONString s) @ r) = Some (s, r)"
  by (simp add: QuoteJSONString_def parseChars_quoted)

lemma isDigit_digit: "n < 10 \<Longrightarrow> isDigit (char_of (48 + (n::nat)))"
  by (simp add: isDigit_def)

lemma digits_all: "\<forall>c \<in> set (digits n). isDigit c"
proof (induction n rule: digits.induct)
  case (1 n)
  show ?case
  proof (cases "n < 10")
    case True
    then show ?thesis by (subst digits.simps) (simp add: isDigit_digit)
  next
    case False
    then have "\<forall>c \<in> set (digits (n div 10)). isDigit c" using 1 by simp
    moreover have "isDigit (char_of (48 + n mod 10))" by (simp add: isDigit_digit)
    ultimately show ?thesis using False by (subst digits.simps) auto
  qed
qed

lemma digits_nonempty: "digits n \<noteq> []"
  by (subst digits.simps) simp

lemma digitsVal_append: "digitsVal (xs @ [c]) = 10 * digitsVal xs + (of_char c - 48)"
  by (simp add: digitsVal_def)

lemma digitsVal_digits: "digitsVal (digits n) = n"
proof (induction n rule: digits.induct)
  case (1 n)
  show ?case
  proof (cases "n < 10")
    case True
    then show ?thesis by (subst digits.simps) (simp add: digitsVal_def)
  next
    case False
    then have ih: "digitsVal (digits (n div 10)) = n div 10" using 1 by simp
    have "digits n = digits (n div 10) @ [char_of (48 + n mod 10)]"
      using False by (subst digits.simps) simp
    then show ?thesis using ih by (simp add: digitsVal_append)
  qed
qed

lemma parseDigits_digits:
  "endsNumber r \<Longrightarrow> parseDigits (digits n @ r) = Some (n, r)"
proof -
  assume e: "endsNumber r"
  then have tw: "takeWhile isDigit (digits n @ r) = digits n"
    using digits_all[of n] by (cases r) (auto simp: endsNumber_def takeWhile_append2 takeWhile_append1)
  from e have dw: "dropWhile isDigit (digits n @ r) = r"
    using digits_all[of n] by (cases r) (auto simp: endsNumber_def dropWhile_append2)
  show ?thesis using tw dw digits_nonempty[of n] by (simp add: parseDigits_def digitsVal_digits)
qed

lemma digits_hd: "\<exists>c cs. digits n = c # cs \<and> isDigit c"
  using digits_all[of n] digits_nonempty[of n] by (cases "digits n") auto

lemma endsNumber_simps [simp]:
  "endsNumber []" "endsNumber (CHR '']'' # r)" "endsNumber (CHR '','' # r)" "endsNumber (CHR ''}'' # r)"
  by (simp_all add: endsNumber_def isDigit_def)

lemma isDigit_not_special:
  "isDigit c \<Longrightarrow> c \<noteq> CHR ''['' \<and> c \<noteq> CHR ''{'' \<and> c \<noteq> CHR 0x22 \<and> c \<noteq> CHR ''-''"
  by (auto simp: isDigit_def)

lemma serialize_first:
  "\<exists>c cs. SerializeJSONProperty v = c # cs \<and> c \<noteq> CHR '']''"
proof (cases v)
  case (JNum i)
  obtain c cs where d: "digits (nat i) = c # cs" "isDigit c" using digits_hd by blast
  then have "c \<noteq> CHR '']''" by (auto simp: isDigit_def)
  then show ?thesis using JNum d by (auto simp: NumberToString_def)
qed (auto simp: QuoteJSONString_def)

lemma parseValue_JNull: "parseValue (Suc n) (''null'' @ r) = Some (JNull, r)"
  by (simp add: isDigit_def)

lemma parseValue_JBool: "parseValue (Suc n) ((if b then ''true'' else ''false'') @ r) = Some (JBool b, r)"
  by (simp add: isDigit_def)

lemma parseValue_JStr: "parseValue (Suc n) (QuoteJSONString s @ r) = Some (JStr s, r)"
  by (simp add: QuoteJSONString_def parseChars_quoted)

lemma parseValue_JNum:
  assumes "endsNumber r"
  shows "parseValue (Suc n) (NumberToString i @ r) = Some (JNum i, r)"
proof (cases "i < 0")
  case True
  then show ?thesis using assms by (simp add: NumberToString_def parseDigits_digits)
next
  case False
  obtain c cs where d: "digits (nat i) = c # cs" "isDigit c" using digits_hd by blast
  have p: "parseDigits (c # cs @ r) = Some (nat i, r)"
    using parseDigits_digits[OF assms, of "nat i"] d by simp
  show ?thesis using False d isDigit_not_special[OF d(2)] p by (simp add: NumberToString_def)
qed


lemma parseElements_commaSep:
  assumes ih: "\<And>x m q. x \<in> set vs \<Longrightarrow> size x < m \<Longrightarrow> endsNumber q \<Longrightarrow>
                 parseValue m (SerializeJSONProperty x @ q) = Some (x, q)"
      and ne: "vs \<noteq> []"
      and fuel: "size_list size vs < n"
  shows "parseElements n (commaSep (map SerializeJSONProperty vs) @ CHR '']'' # r) = Some (vs, r)"
  using ih ne fuel
proof (induction vs arbitrary: n)
  case Nil
  then show ?case by simp
next
  case (Cons v vs)
  note IH = Cons.IH and prems = Cons.prems
  from prems(3) obtain m where n: "n = Suc m" by (cases n) auto
  have sv: "size v < m" and svs: "size_list size vs < m" using prems(3) n by auto
  have ih': "\<And>x m q. x \<in> set vs \<Longrightarrow> size x < m \<Longrightarrow> endsNumber q \<Longrightarrow>
                 parseValue m (SerializeJSONProperty x @ q) = Some (x, q)"
    using prems(1) by (meson list.set_intros(2))
  have pvq: "\<And>q. endsNumber q \<Longrightarrow> parseValue m (SerializeJSONProperty v @ q) = Some (v, q)"
    using prems(1)[of v m] sv by simp
  show ?case
  proof (cases "vs = []")
    case True
    have "parseValue m (SerializeJSONProperty v @ CHR '']'' # r) = Some (v, CHR '']'' # r)"
      using pvq by simp
    then show ?thesis using True n by simp
  next
    case False
    then obtain w ws where vs: "vs = w # ws" by (cases vs) auto
    have pv: "parseValue m (SerializeJSONProperty v @ CHR '','' # commaSep (map SerializeJSONProperty vs) @ CHR '']'' # r)
              = Some (v, CHR '','' # commaSep (map SerializeJSONProperty vs) @ CHR '']'' # r)"
      using pvq by simp
    have pe: "parseElements m (commaSep (map SerializeJSONProperty vs) @ CHR '']'' # r) = Some (vs, r)"
      by (rule IH[OF ih' False svs])
    have "commaSep (map SerializeJSONProperty (v # vs)) @ CHR '']'' # r
          = SerializeJSONProperty v @ CHR '','' # commaSep (map SerializeJSONProperty vs) @ CHR '']'' # r"
      using vs by simp
    then show ?thesis using n pv pe by simp
  qed
qed

lemma serialize_JObj:
  "SerializeJSONProperty (JObj kvs) = CHR ''{'' # commaSep (map SerializeMember kvs) @ ''}''"
  by (simp add: SerializeMember_def[abs_def] comp_def)

lemma parseMembers_commaSep:
  assumes ih: "\<And>k x m q. (k, x) \<in> set kvs \<Longrightarrow> size x < m \<Longrightarrow> endsNumber q \<Longrightarrow>
                 parseValue m (SerializeJSONProperty x @ q) = Some (x, q)"
      and ne: "kvs \<noteq> []"
      and fuel: "size_list (size_prod (\<lambda>_. 0) size) kvs < n"
  shows "parseMembers n (commaSep (map SerializeMember kvs) @ CHR ''}'' # r) = Some (kvs, r)"
  using ih ne fuel
proof (induction kvs arbitrary: n)
  case Nil
  then show ?case by simp
next
  case (Cons kv kvs)
  note IH = Cons.IH and prems = Cons.prems
  obtain k v where kv: "kv = (k, v)" by (cases kv)
  from prems(3) obtain m where n: "n = Suc m" by (cases n) auto
  have sv: "size v < m" and svs: "size_list (size_prod (\<lambda>_. 0) size) kvs < m"
    using prems(3) n kv by auto
  have key: "\<And>q. parseChars (concat (map QuoteJSONChar k) @ CHR 0x22 # q) = Some (k, q)"
    by (rule parseChars_quoted)
  have ih': "\<And>k x m q. (k, x) \<in> set kvs \<Longrightarrow> size x < m \<Longrightarrow> endsNumber q \<Longrightarrow>
                 parseValue m (SerializeJSONProperty x @ q) = Some (x, q)"
    using prems(1) by (meson list.set_intros(2))
  have pvq: "\<And>q. endsNumber q \<Longrightarrow> parseValue m (SerializeJSONProperty v @ q) = Some (v, q)"
    using prems(1)[of k v m] sv kv by simp
  show ?case
  proof (cases "kvs = []")
    case True
    have "parseValue m (SerializeJSONProperty v @ CHR ''}'' # r) = Some (v, CHR ''}'' # r)"
      using pvq by simp
    then show ?thesis using True n kv key by (simp add: SerializeMember_def QuoteJSONString_def)
  next
    case False
    then obtain w ws where kvs: "kvs = w # ws" by (cases kvs) auto
    have pv: "parseValue m (SerializeJSONProperty v @ CHR '','' # commaSep (map SerializeMember kvs) @ CHR ''}'' # r)
              = Some (v, CHR '','' # commaSep (map SerializeMember kvs) @ CHR ''}'' # r)"
      using pvq by simp
    have pe: "parseMembers m (commaSep (map SerializeMember kvs) @ CHR ''}'' # r) = Some (kvs, r)"
      by (rule IH[OF ih' False svs])
    have "commaSep (map SerializeMember (kv # kvs)) @ CHR ''}'' # r
          = CHR 0x22 # concat (map QuoteJSONChar k) @ CHR 0x22 # CHR '':'' # SerializeJSONProperty v @
            CHR '','' # commaSep (map SerializeMember kvs) @ CHR ''}'' # r"
      using kvs kv by (simp add: SerializeMember_def QuoteJSONString_def)
    then show ?thesis using n key pv pe kv by simp
  qed
qed

lemma SerializeMember_first: "\<exists>cs. SerializeMember kv = CHR 0x22 # cs"
  by (simp add: SerializeMember_def QuoteJSONString_def)

lemma commaSep_first: "xs \<noteq> [] \<Longrightarrow> hd xs = c # cs \<Longrightarrow> \<exists>ds. commaSep xs = c # ds"
  by (induction xs rule: commaSep.induct) auto

lemma parseValue_serialize:
  "size v < n \<Longrightarrow> endsNumber r \<Longrightarrow> parseValue n (SerializeJSONProperty v @ r) = Some (v, r)"
proof (induction v arbitrary: n r)
  case JNull
  then obtain m where "n = Suc m" by (cases n) auto
  then show ?case using parseValue_JNull by simp
next
  case (JBool b)
  then obtain m where "n = Suc m" by (cases n) auto
  then show ?case using parseValue_JBool[of m b r] by simp
next
  case (JNum i)
  then obtain m where "n = Suc m" by (cases n) auto
  then show ?case using parseValue_JNum[OF JNum.prems(2), of m i] by simp
next
  case (JStr s)
  then obtain m where "n = Suc m" by (cases n) auto
  then show ?case using parseValue_JStr[of m s r] by simp
next
  case (JArr vs)
  from JArr.prems(1) obtain m where n: "n = Suc m" by (cases n) auto
  show ?case
  proof (cases vs)
    case Nil
    then show ?thesis using n by simp
  next
    case (Cons w ws)
    obtain c cs where f: "SerializeJSONProperty w = c # cs" "c \<noteq> CHR '']''"
      using serialize_first by blast
    have ne: "vs \<noteq> []" using Cons by simp
    have "hd (map SerializeJSONProperty vs) = c # cs" using Cons f by simp
    then obtain ds where ds: "commaSep (map SerializeJSONProperty vs) = c # ds"
      using commaSep_first[of "map SerializeJSONProperty vs" c cs] ne by auto
    have fuel: "size_list size vs < m" using JArr.prems(1) n by simp
    have pe: "parseElements m (commaSep (map SerializeJSONProperty vs) @ CHR '']'' # r) = Some (vs, r)"
      by (rule parseElements_commaSep[OF JArr.IH ne fuel])
    have "SerializeJSONProperty (JArr vs) @ r = CHR ''['' # c # ds @ CHR '']'' # r"
      using ds by simp
    moreover have "parseElements m (c # ds @ CHR '']'' # r) = Some (vs, r)"
      using pe ds by simp
    ultimately show ?thesis using n f(2) by simp
  qed
next
  case (JObj kvs)
  from JObj.prems(1) obtain m where n: "n = Suc m" by (cases n) auto
  show ?case
  proof (cases kvs)
    case Nil
    then show ?thesis using n by simp
  next
    case (Cons w ws)
    obtain cs where f: "SerializeMember w = CHR 0x22 # cs"
      using SerializeMember_first by blast
    have ne: "kvs \<noteq> []" using Cons by simp
    have "hd (map SerializeMember kvs) = CHR 0x22 # cs" using Cons f by simp
    then obtain ds where ds: "commaSep (map SerializeMember kvs) = CHR 0x22 # ds"
      using commaSep_first[of "map SerializeMember kvs" "CHR 0x22" cs] ne by auto
    have fuel: "size_list (size_prod (\<lambda>_. 0) size) kvs < m" using JObj.prems(1) n by simp
    have ih: "\<And>k x m q. (k, x) \<in> set kvs \<Longrightarrow> size x < m \<Longrightarrow> endsNumber q \<Longrightarrow>
                 parseValue m (SerializeJSONProperty x @ q) = Some (x, q)"
      using JObj.IH by force
    have pe: "parseMembers m (commaSep (map SerializeMember kvs) @ CHR ''}'' # r) = Some (kvs, r)"
      by (rule parseMembers_commaSep[OF ih ne fuel])
    have "SerializeJSONProperty (JObj kvs) @ r = CHR ''{'' # CHR 0x22 # ds @ CHR ''}'' # r"
      unfolding serialize_JObj using ds by simp
    moreover have "parseMembers m (CHR 0x22 # ds @ CHR ''}'' # r) = Some (kvs, r)"
      using pe ds by simp
    ultimately show ?thesis using n by simp
  qed
qed

lemma QuoteJSONChar_nonempty: "QuoteJSONChar c \<noteq> []"
  by (simp add: QuoteJSONChar_def)

lemma commaSep_length: "sum_list (map length xs) \<le> length (commaSep xs)"
  by (induction xs rule: commaSep.induct) auto

lemma size_list_le_sum_list:
  "(\<And>x. x \<in> set xs \<Longrightarrow> f x < g x) \<Longrightarrow> size_list f xs \<le> sum_list (map g xs)"
proof (induction xs)
  case Nil
  then show ?case by simp
next
  case (Cons a xs)
  have "f a < g a" using Cons.prems by simp
  moreover have "size_list f xs \<le> sum_list (map g xs)" using Cons by simp
  ultimately show ?case by simp
qed

lemma size_le_length_serialize: "size v < length (SerializeJSONProperty v)"
proof (induction v)
  case (JNum i)
  then show ?case using digits_nonempty[of "nat i"] digits_nonempty[of "nat (- i)"]
    by (cases "digits (nat i)"; cases "digits (nat (- i))") (auto simp: NumberToString_def)
next
  case (JArr vs)
  have "size_list size vs \<le> sum_list (map length (map SerializeJSONProperty vs))"
    unfolding map_map by (rule size_list_le_sum_list) (simp add: JArr.IH)
  also have "\<dots> \<le> length (commaSep (map SerializeJSONProperty vs))" by (rule commaSep_length)
  finally show ?case by simp
next
  case (JObj kvs)
  have "size_list (size_prod (\<lambda>_. 0) size) kvs \<le> sum_list (map length (map SerializeMember kvs))"
    unfolding map_map
  proof (rule size_list_le_sum_list)
    fix a assume a: "a \<in> set kvs"
    obtain k v where kv: "a = (k, v)" by (cases a)
    have "size v < length (SerializeJSONProperty v)" using JObj.IH[of a v] a kv by simp
    then show "size_prod (\<lambda>_. 0) size a < (length \<circ> SerializeMember) a"
      using kv by (simp add: SerializeMember_def QuoteJSONString_def)
  qed
  also have "\<dots> \<le> length (commaSep (map SerializeMember kvs))" by (rule commaSep_length)
  finally show ?case unfolding serialize_JObj by simp
qed (simp_all add: QuoteJSONString_def)

lemma JSON_roundtrip: "JSON_parse (JSON_stringify v) = Some v"
proof -
  have "size v < Suc (length (SerializeJSONProperty v))"
    using size_le_length_serialize[of v] by simp
  then have "parseValue (Suc (length (SerializeJSONProperty v))) (SerializeJSONProperty v @ []) = Some (v, [])"
    by (rule parseValue_serialize) simp
  then show ?thesis by (simp add: JSON_parse_def JSON_stringify_def)
qed

lemma JSON_stringify_nonempty: "JSON_stringify v \<noteq> []"
  using serialize_first[of v] by (auto simp: JSON_stringify_def)

section \<open>Task and ProjectTask reconciliation in the client\<close>

lemma updateProjects_fst:
  "fst (updateProjects t ps tgt) = map (\<lambda>p. if Some (p_id p) = t_projectId t then p\<lparr>p_tasks := map (updateProjectTask t) (p_tasks p)\<rparr> else p) ps"
  by (induction ps arbitrary: tgt) (simp_all add: Let_def case_prod_beta)

lemma updateProjects_snd_None:
  "snd (updateProjects t ps tgt) = None \<longleftrightarrow> tgt = None \<and> (\<forall>p \<in> set ps. Some (p_id p) \<noteq> t_projectId t)"
  by (induction ps arbitrary: tgt) (auto simp: Let_def case_prod_beta)

text \<open>
  What \<open>handleUpdateTask\<close> does with a task that carries a projectId (a non-empty
  string, which is what \<^verbatim>\<open>if (updatedTask.projectId)\<close> asks for), in every state: the
  next rendering leaves the standalone tasks alone and maps the update onto the
  ProjectTasks with the task's id inside the projects with that id, and no request has been
  sent. The updater does assign the project it has rebuilt, but only when the rendering
  calls it.
\<close>

lemma handleUpdateTask_project_branch:
  assumes "truthy (t_projectId t)"
  shows "snd (handleUpdateTask t) = []"
    and "render s (fst (handleUpdateTask t)) =
           s\<lparr>projects :=
                map (\<lambda>p. if Some (p_id p) = t_projectId t
                         then p\<lparr>p_tasks := map (updateProjectTask t) (p_tasks p)\<rparr> else p)
                    (projects s)\<rparr>"
  using assms by (simp_all add: handleUpdateTask_def render_def updateProjects_fst)

lemma handleUpdateTask_updater_assigns:
  assumes "p \<in> set ps" and "Some (p_id p) = t_projectId t"
  shows "snd (updateProjects t ps None) \<noteq> None"
  using assms updateProjects_snd_None[of t ps None] by blast

lemma handleUpdateTask_standalone_branch:
  assumes "\<not> truthy (t_projectId t)"
  shows "snd (handleUpdateTask t) = [SaveTaskAPI t]"
    and "render s (fst (handleUpdateTask t)) =
           s\<lparr>tasks := map (\<lambda>x. if t_id x = t_id t then t else x) (tasks s)\<rparr>"
  using assms by (simp_all add: handleUpdateTask_def render_def)


text \<open>
  A projectId that is the empty string is not set as far as the handler is concerned: the
  task is treated as a standalone one.
\<close>

lemma handleUpdateTask_empty_projectId:
  "t_projectId t = Some [] \<Longrightarrow>
     handleUpdateTask t =
       ([SetTasks (map (\<lambda>x. if t_id x = t_id t then t else x))], [SaveTaskAPI t])"
  by (simp add: handleUpdateTask_def)

lemma removeProjectTask_fst:
  "fst (removeProjectTask sid tid ps tgt) =
     map (\<lambda>p. if p_id p = sid then p\<lparr>p_tasks := filter (\<lambda>pt. pt_id pt \<noteq> tid) (p_tasks p)\<rparr> else p) ps"
  by (induction ps arbitrary: tgt) (simp_all add: Let_def case_prod_beta)

lemma removeProjectTask_snd_None:
  "snd (removeProjectTask sid tid ps tgt) = None \<longleftrightarrow> tgt = None \<and> (\<forall>p \<in> set ps. p_id p \<noteq> sid)"
  by (induction ps arbitrary: tgt) (auto simp: Let_def case_prod_beta)

lemma findProjectTaskSource_None:
  "findProjectTaskSource ps tid = None \<longleftrightarrow> (\<forall>p \<in> set ps. \<forall>pt \<in> set (p_tasks p). pt_id pt \<noteq> tid)"
  by (auto simp: findProjectTaskSource_def find_None_iff list_ex_iff)

lemma findProjectTaskSource_Some:
  "findProjectTaskSource ps tid = Some src \<Longrightarrow> src \<in> set ps \<and> (\<exists>pt \<in> set (p_tasks src). pt_id pt = tid)"
  by (auto simp: findProjectTaskSource_def find_Some_iff list_ex_iff)

text \<open>
  What \<open>handleDeleteTask\<close> does in every state. When some project holds a ProjectTask
  with the id, the next rendering has the standalone tasks unchanged and the ProjectTask
  removed from the projects with the id of the first such project, and no request has been
  sent. When no project holds one, the next rendering has the projects unchanged and the
  standalone task removed, and the one request is the task delete.
\<close>

lemma handleDeleteTask_project_branch:
  assumes "\<exists>p \<in> set (projects s). \<exists>pt \<in> set (p_tasks p). pt_id pt = taskId"
  shows "snd (handleDeleteTask s taskId) = []"
    and "\<exists>src \<in> set (projects s). (\<exists>pt \<in> set (p_tasks src). pt_id pt = taskId) \<and>
           render s (fst (handleDeleteTask s taskId)) =
             s\<lparr>projects :=
                  map (\<lambda>p. if p_id p = p_id src
                           then p\<lparr>p_tasks := filter (\<lambda>pt. pt_id pt \<noteq> taskId) (p_tasks p)\<rparr>
                           else p) (projects s)\<rparr>"
proof -
  from assms have "findProjectTaskSource (projects s) taskId \<noteq> None"
    by (simp add: findProjectTaskSource_None)
  then obtain src where src: "findProjectTaskSource (projects s) taskId = Some src" by auto
  show "snd (handleDeleteTask s taskId) = []"
    using src by (simp add: handleDeleteTask_def)
  have "render s (fst (handleDeleteTask s taskId)) =
             s\<lparr>projects :=
                  map (\<lambda>p. if p_id p = p_id src
                           then p\<lparr>p_tasks := filter (\<lambda>pt. pt_id pt \<noteq> taskId) (p_tasks p)\<rparr>
                           else p) (projects s)\<rparr>"
    using src by (simp add: handleDeleteTask_def render_def removeProjectTask_fst)
  then show "\<exists>src \<in> set (projects s). (\<exists>pt \<in> set (p_tasks src). pt_id pt = taskId) \<and>
           render s (fst (handleDeleteTask s taskId)) =
             s\<lparr>projects :=
                  map (\<lambda>p. if p_id p = p_id src
                           then p\<lparr>p_tasks := filter (\<lambda>pt. pt_id pt \<noteq> taskId) (p_tasks p)\<rparr>
                           else p) (projects s)\<rparr>"
    using findProjectTaskSource_Some[OF src] by blast
qed

lemma handleDeleteTask_updater_assigns:
  assumes "src \<in> set ps"
  shows "snd (removeProjectTask (p_id src) taskId ps None) \<noteq> None"
  using assms removeProjectTask_snd_None[of "p_id src" taskId ps None] by blast

lemma handleDeleteTask_standalone_branch:
  assumes "\<forall>p \<in> set (projects s). \<forall>pt \<in> set (p_tasks p). pt_id pt \<noteq> taskId"
  shows "snd (handleDeleteTask s taskId) = [DeleteTaskAPI taskId]"
    and "render s (fst (handleDeleteTask s taskId)) =
           s\<lparr>tasks := filter (\<lambda>t. t_id t \<noteq> taskId) (tasks s)\<rparr>"
proof -
  from assms have n: "findProjectTaskSource (projects s) taskId = None"
    by (simp add: findProjectTaskSource_None)
  show "snd (handleDeleteTask s taskId) = [DeleteTaskAPI taskId]"
    using n by (simp add: handleDeleteTask_def)
  show "render s (fst (handleDeleteTask s taskId)) =
           s\<lparr>tasks := filter (\<lambda>t. t_id t \<noteq> taskId) (tasks s)\<rparr>"
    using n by (simp add: handleDeleteTask_def render_def)
qed


section \<open>Idea to project conversion\<close>

lemma distinct_key_eq:
  "distinct (map key xs) \<Longrightarrow> x \<in> set xs \<Longrightarrow> y \<in> set xs \<Longrightarrow> key x = key y \<Longrightarrow> x = y"
  by (meson distinct_map inj_on_def)

lemma distinct_insert_or_replace:
  "distinct (map key tbl) \<Longrightarrow> distinct (map key (insert_or_replace key r tbl))"
  by (induction tbl) (auto simp: insert_or_replace_def)

lemma post_idea_keeps_key:
  "distinct (map ir_id (db_ideas d)) \<Longrightarrow> distinct (map ir_id (db_ideas (post_idea d u i)))"
  by (simp add: post_idea_def distinct_insert_or_replace)

lemma mark_converted_keeps_ids:
  "map ir_id (map (\<lambda>i. if P i then i\<lparr>ir_convertedToProjectId := a, ir_status := b\<rparr> else i) xs)
     = map ir_id xs"
  by (induction xs) simp_all

lemma convert_to_project_keeps_key:
  "map ir_id (db_ideas (fst (convert_to_project d u ideaId body dateNow rnd now))) = map ir_id (db_ideas d)"
proof (cases "List.find (\<lambda>i. ir_id i = ideaId \<and> ir_userId i = Some u) (db_ideas d)")
  case None
  then show ?thesis by (simp add: convert_to_project_def)
next
  case (Some idea)
  show ?thesis
    unfolding convert_to_project_def Some Let_def
    by (simp add: mark_converted_keeps_ids split: option.splits)
qed

lemma find_owned_idea:
  assumes "x \<in> set xs" "ir_id x = ideaId" "ir_userId x = Some userId" "distinct (map ir_id xs)"
  shows "List.find (\<lambda>i. ir_id i = ideaId \<and> ir_userId i = Some userId) xs = Some x"
proof (cases "List.find (\<lambda>i. ir_id i = ideaId \<and> ir_userId i = Some userId) xs")
  case None
  then show ?thesis using assms(1-3) by (auto simp: find_None_iff)
next
  case (Some y)
  then have "y \<in> set xs" "ir_id y = ideaId"
    by (auto simp: find_Some_iff)
  then have "y = x" using assms distinct_key_eq[of ir_id xs y x] by simp
  then show ?thesis using Some by simp
qed

lemma update_owned_idea:
  assumes "x \<in> set xs" "ir_id x = ideaId" "ir_userId x = Some userId" "distinct (map ir_id xs)"
  shows "map (\<lambda>i. if ir_id i = ideaId \<and> ir_userId i = Some userId then f i else i) xs
         = map (\<lambda>i. if i = x then f x else i) xs"
proof (rule map_cong[OF refl])
  fix i assume i: "i \<in> set xs"
  show "(if ir_id i = ideaId \<and> ir_userId i = Some userId then f i else i) = (if i = x then f x else i)"
  proof (cases "i = x")
    case True
    then show ?thesis using assms(2,3) by simp
  next
    case False
    have "ir_id i \<noteq> ideaId"
    proof
      assume "ir_id i = ideaId"
      then have "ir_id i = ir_id x" using assms(2) by simp
      then have "i = x" by (rule distinct_key_eq[OF assms(4) i assms(1)])
      then show False using False by simp
    qed
    then show ?thesis using False by simp
  qed
qed

lemma insert_row_fresh:
  "\<forall>x \<in> set tbl. key x \<noteq> key r \<Longrightarrow> insert_row key r tbl = Some (tbl @ [r])"
  by (auto simp: insert_row_def list_ex_iff)

lemma convert_to_project_success:
  assumes own: "x \<in> set (db_ideas d)" "ir_id x = ideaId" "ir_userId x = Some userId"
      and key: "distinct (map ir_id (db_ideas d))"
      and fresh: "\<forall>p \<in> set (db_projects d). pr_id p \<noteq> projectId_of dateNow rnd"
  shows "convert_to_project d userId ideaId body dateNow rnd now =
           (d\<lparr>db_projects := db_projects d @
                  [\<lparr>pr_id = projectId_of dateNow rnd, pr_userId = Some userId,
                    pr_name = or_default (cb_name body) (ir_title x),
                    pr_description = or_default (cb_description body) (ir_description x),
                    pr_status = or_default (cb_status body) ''Not Started'',
                    pr_startDate = or_default (cb_startDate body) (take 10 now),
                    pr_dueDate = or_default (cb_dueDate body) '''', pr_createdAt = now,
                    pr_sourceIdeaId = Some (ir_id x), pr_sourceIdeaTitle = Some (ir_title x),
                    pr_sourceEngagementId = js_or (ir_engagementId x) None,
                    pr_sourceEngagementName = js_or (ir_engagementName x) None\<rparr>],
               db_ideas := map (\<lambda>i. if i = x
                                      then x\<lparr>ir_convertedToProjectId := Some (projectId_of dateNow rnd),
                                             ir_status := ''Implemented''\<rparr>
                                      else i) (db_ideas d)\<rparr>,
            Json \<lparr>p_id = projectId_of dateNow rnd,
                  p_name = or_default (cb_name body) (ir_title x),
                  p_description = or_default (cb_description body) (ir_description x),
                  p_status = or_default (cb_status body) ''Not Started'',
                  p_startDate = or_default (cb_startDate body) (take 10 now),
                  p_dueDate = or_default (cb_dueDate body) '''',
                  p_tasks = [], p_researchNotes = [], p_createdAt = now,
                  p_sourceIdeaId = Some (ir_id x), p_sourceIdeaTitle = Some (ir_title x),
                  p_sourceEngagementId = js_or (ir_engagementId x) None,
                  p_sourceEngagementName = js_or (ir_engagementName x) None\<rparr>)"
proof -
  have f: "List.find (\<lambda>i. ir_id i = ideaId \<and> ir_userId i = Some userId) (db_ideas d) = Some x"
    using find_owned_idea[OF own key] .
  have u: "map (\<lambda>i. if ir_id i = ideaId \<and> ir_userId i = Some userId
                    then i\<lparr>ir_convertedToProjectId := Some (projectId_of dateNow rnd),
                           ir_status := ''Implemented''\<rparr>
                    else i) (db_ideas d)
           = map (\<lambda>i. if i = x
                      then x\<lparr>ir_convertedToProjectId := Some (projectId_of dateNow rnd),
                             ir_status := ''Implemented''\<rparr>
                      else i) (db_ideas d)"
    using update_owned_idea[OF own key, of "\<lambda>i. i\<lparr>ir_convertedToProjectId := Some (projectId_of dateNow rnd),
                           ir_status := ''Implemented''\<rparr>"] .
  show ?thesis
    unfolding convert_to_project_def f Let_def
    by (simp add: u insert_row_def list_ex_iff fresh)
qed

text \<open>
  Claim C5. When no idea row has both the id of the request and the requesting user's
  userId, the conversion endpoint answers 404 with the message "Idea not found" and the
  store is unchanged.
\<close>

theorem convert_idea_not_found:
  assumes "\<not> (\<exists>i \<in> set (db_ideas d). ir_id i = ideaId \<and> ir_userId i = Some userId)"
  shows "convert_to_project d userId ideaId body dateNow rnd now = (d, Error 404 ''Idea not found'')"
proof -
  have "List.find (\<lambda>i. ir_id i = ideaId \<and> ir_userId i = Some userId) (db_ideas d) = None"
    using assms by (simp add: find_None_iff)
  then show ?thesis by (simp add: convert_to_project_def)
qed

theorem convert_idea_not_found_witness:
  "\<not> (\<exists>i \<in> set (db_ideas ex_db). ir_id i = ''idea-1'' \<and> ir_userId i = Some ''user-2'') \<and>
   \<not> (\<exists>i \<in> set (db_ideas ex_db). ir_id i = ''idea-7'' \<and> ir_userId i = Some ''user-1'') \<and>
   convert_to_project ex_db ''user-2'' ''idea-1'' no_overrides ''1704103200000'' ''k3j9x2m1q''
      ''2024-01-01T10:00:00.000Z'' = (ex_db, Error 404 ''Idea not found'') \<and>
   convert_to_project ex_db ''user-1'' ''idea-7'' no_overrides ''1704103200000'' ''k3j9x2m1q''
      ''2024-01-01T10:00:00.000Z'' = (ex_db, Error 404 ''Idea not found'')"
proof -
  have h1: "\<not> (\<exists>i \<in> set (db_ideas ex_db). ir_id i = ''idea-1'' \<and> ir_userId i = Some ''user-2'')"
    by (simp add: ex_db_def ex_idea1_def)
  have h2: "\<not> (\<exists>i \<in> set (db_ideas ex_db). ir_id i = ''idea-7'' \<and> ir_userId i = Some ''user-1'')"
    by (simp add: ex_db_def ex_idea1_def)
  show ?thesis
    using h1 h2 convert_idea_not_found[OF h1] convert_idea_not_found[OF h2] by blast
qed

lemma idea_row_of_description_mirror:
  "i_entries i = Some (e # es) \<Longrightarrow> ir_description (idea_row_of u i) = ie_content e"
  by (simp add: idea_row_of_def Let_def)

text \<open>
  Claim C3. For an idea \<open>x\<close> of the requesting user, the conversion endpoint called with
  an empty body answers with a project whose id is the freshly generated one, whose
  sourceIdeaId is the idea's id, whose name is the idea's title, whose description is the
  idea's description column, whose status is "Not Started", whose startDate is the date
  part of the current time and whose tasks and researchNotes are empty. It adds exactly one
  row to the projects table, with the same values and the requesting user, and it changes
  the idea row, and only that row, to carry the new project's id in convertedToProjectId
  and the status "Implemented". The description column is the legacy mirror: the ideas
  endpoint stores the content of the first entry there. The generated id is assumed not to
  be the id of a project already stored, and the ideas table to respect its primary key.
\<close>

theorem convert_idea_empty_body:
  assumes own: "x \<in> set (db_ideas d)" "ir_id x = ideaId" "ir_userId x = Some userId"
      and key: "distinct (map ir_id (db_ideas d))"
      and fresh: "\<forall>p \<in> set (db_projects d). pr_id p \<noteq> projectId_of dateNow rnd"
      and res: "convert_to_project d userId ideaId
                  \<lparr>cb_name = None, cb_description = None, cb_status = None,
                   cb_startDate = None, cb_dueDate = None\<rparr> dateNow rnd now = (d', resp)"
  shows "(\<exists>proj row.
            resp = Json proj \<and> p_id proj = projectId_of dateNow rnd \<and>
            p_sourceIdeaId proj = Some (ir_id x) \<and> p_name proj = ir_title x \<and>
            p_description proj = ir_description x \<and> p_status proj = ''Not Started'' \<and>
            p_startDate proj = take 10 now \<and> p_tasks proj = [] \<and> p_researchNotes proj = [] \<and>
            db_projects d' = db_projects d @ [row] \<and> pr_id row = p_id proj \<and>
            pr_userId row = Some userId \<and> pr_sourceIdeaId row = Some (ir_id x) \<and>
            pr_name row = ir_title x \<and> pr_description row = ir_description x \<and>
            pr_status row = ''Not Started'' \<and> pr_startDate row = take 10 now \<and>
            db_ideas d' =
              map (\<lambda>i. if i = x
                        then x\<lparr>ir_convertedToProjectId := Some (p_id proj),
                               ir_status := ''Implemented''\<rparr>
                        else i) (db_ideas d) \<and>
            db_project_tasks d' = db_project_tasks d \<and>
            db_research_notes d' = db_research_notes d) \<and>
         (\<forall>u i e es. i_entries i = Some (e # es) \<longrightarrow>
            ir_description (idea_row_of u i) = ie_content e)"
proof -
  note s = convert_to_project_success[OF own key fresh,
      of "\<lparr>cb_name = None, cb_description = None, cb_status = None,
           cb_startDate = None, cb_dueDate = None\<rparr>" now]
  from s res have d': "d' = fst (convert_to_project d userId ideaId
                  \<lparr>cb_name = None, cb_description = None, cb_status = None,
                   cb_startDate = None, cb_dueDate = None\<rparr> dateNow rnd now)"
    and resp: "resp = snd (convert_to_project d userId ideaId
                  \<lparr>cb_name = None, cb_description = None, cb_status = None,
                   cb_startDate = None, cb_dueDate = None\<rparr> dateNow rnd now)"
    by simp_all
  have a: "\<exists>proj row.
            resp = Json proj \<and> p_id proj = projectId_of dateNow rnd \<and>
            p_sourceIdeaId proj = Some (ir_id x) \<and> p_name proj = ir_title x \<and>
            p_description proj = ir_description x \<and> p_status proj = ''Not Started'' \<and>
            p_startDate proj = take 10 now \<and> p_tasks proj = [] \<and> p_researchNotes proj = [] \<and>
            db_projects d' = db_projects d @ [row] \<and> pr_id row = p_id proj \<and>
            pr_userId row = Some userId \<and> pr_sourceIdeaId row = Some (ir_id x) \<and>
            pr_name row = ir_title x \<and> pr_description row = ir_description x \<and>
            pr_status row = ''Not Started'' \<and> pr_startDate row = take 10 now \<and>
            db_ideas d' =
              map (\<lambda>i. if i = x
                        then x\<lparr>ir_convertedToProjectId := Some (p_id proj),
                               ir_status := ''Implemented''\<rparr>
                        else i) (db_ideas d) \<and>
            db_project_tasks d' = db_project_tasks d \<and>
            db_research_notes d' = db_research_notes d"
    unfolding d' resp s by (simp add: or_default_def)
  show ?thesis using a idea_row_of_description_mirror by blast
qed

theorem convert_idea_empty_body_witness:
  "ex_idea1 \<in> set (db_ideas ex_db) \<and> ir_id ex_idea1 = ''idea-1'' \<and>
   ir_userId ex_idea1 = Some ''user-1'' \<and> distinct (map ir_id (db_ideas ex_db)) \<and>
   \<not> (\<exists>p \<in> set (db_projects ex_db). pr_id p = projectId_of ''1704103200000'' ''k3j9x2m1q'') \<and>
   (\<exists>proj row.
      snd (convert_to_project ex_db ''user-1'' ''idea-1'' no_overrides ''1704103200000''
             ''k3j9x2m1q'' ''2024-01-01T10:00:00.000Z'') = Json proj \<and>
      p_id proj = ''proj-1704103200000-k3j9x2m1q'' \<and> p_sourceIdeaId proj = Some ''idea-1'' \<and>
      p_name proj = ''Automated Status Tool'' \<and> p_description proj = ''Script for Jira'' \<and>
      p_status proj = ''Not Started'' \<and> p_startDate proj = ''2024-01-01'' \<and>
      p_tasks proj = [] \<and> p_researchNotes proj = [] \<and>
      db_projects (fst (convert_to_project ex_db ''user-1'' ''idea-1'' no_overrides
             ''1704103200000'' ''k3j9x2m1q'' ''2024-01-01T10:00:00.000Z''))
        = db_projects ex_db @ [row] \<and>
      pr_id row = ''proj-1704103200000-k3j9x2m1q'' \<and>
      db_ideas (fst (convert_to_project ex_db ''user-1'' ''idea-1'' no_overrides
             ''1704103200000'' ''k3j9x2m1q'' ''2024-01-01T10:00:00.000Z''))
        = [ex_idea1\<lparr>ir_convertedToProjectId := Some ''proj-1704103200000-k3j9x2m1q'',
                    ir_status := ''Implemented''\<rparr>])"
proof -
  let ?c = "convert_to_project ex_db ''user-1'' ''idea-1'' no_overrides ''1704103200000''
             ''k3j9x2m1q'' ''2024-01-01T10:00:00.000Z''"
  have h1: "ex_idea1 \<in> set (db_ideas ex_db)" by (simp add: ex_db_def)
  have h2: "ir_id ex_idea1 = ''idea-1''" by (simp add: ex_idea1_def)
  have h3: "ir_userId ex_idea1 = Some ''user-1''" by (simp add: ex_idea1_def)
  have h4: "distinct (map ir_id (db_ideas ex_db))" by (simp add: ex_db_def)
  have h5: "\<forall>p \<in> set (db_projects ex_db). pr_id p \<noteq> projectId_of ''1704103200000'' ''k3j9x2m1q''"
    by (simp add: ex_db_def project_row_of_def ex_p1_def projectId_of_def)
  have h6: "convert_to_project ex_db ''user-1'' ''idea-1''
              \<lparr>cb_name = None, cb_description = None, cb_status = None,
               cb_startDate = None, cb_dueDate = None\<rparr> ''1704103200000''
             ''k3j9x2m1q'' ''2024-01-01T10:00:00.000Z'' = (fst ?c, snd ?c)"
    by (simp add: no_overrides_def)
  from convert_idea_empty_body[OF h1 h2 h3 h4 h5 h6]
  obtain proj row where r:
    "snd ?c = Json proj" "p_id proj = projectId_of ''1704103200000'' ''k3j9x2m1q''"
    "p_sourceIdeaId proj = Some (ir_id ex_idea1)" "p_name proj = ir_title ex_idea1"
    "p_description proj = ir_description ex_idea1" "p_status proj = ''Not Started''"
    "p_startDate proj = take 10 ''2024-01-01T10:00:00.000Z''" "p_tasks proj = []"
    "p_researchNotes proj = []" "db_projects (fst ?c) = db_projects ex_db @ [row]"
    "pr_id row = p_id proj"
    "db_ideas (fst ?c) =
       map (\<lambda>i. if i = ex_idea1
                 then ex_idea1\<lparr>ir_convertedToProjectId := Some (p_id proj),
                               ir_status := ''Implemented''\<rparr>
                 else i) (db_ideas ex_db)"
    by blast
  have pid: "projectId_of ''1704103200000'' ''k3j9x2m1q'' = ''proj-1704103200000-k3j9x2m1q''"
    by (simp add: projectId_of_def)
  have v: "ir_title ex_idea1 = ''Automated Status Tool''" "ir_description ex_idea1 = ''Script for Jira''"
    by (simp_all add: ex_idea1_def)
  have ideas: "db_ideas ex_db = [ex_idea1]" by (simp add: ex_db_def)
  have i': "db_ideas (fst ?c) = [ex_idea1\<lparr>ir_convertedToProjectId := Some ''proj-1704103200000-k3j9x2m1q'',
                    ir_status := ''Implemented''\<rparr>]"
    using r(12) r(2) pid ideas by simp
  have h5': "\<not> (\<exists>p \<in> set (db_projects ex_db). pr_id p = projectId_of ''1704103200000'' ''k3j9x2m1q'')"
    using h5 by blast
  have "snd ?c = Json proj \<and>
      p_id proj = ''proj-1704103200000-k3j9x2m1q'' \<and> p_sourceIdeaId proj = Some ''idea-1'' \<and>
      p_name proj = ''Automated Status Tool'' \<and> p_description proj = ''Script for Jira'' \<and>
      p_status proj = ''Not Started'' \<and> p_startDate proj = ''2024-01-01'' \<and>
      p_tasks proj = [] \<and> p_researchNotes proj = [] \<and>
      db_projects (fst ?c) = db_projects ex_db @ [row] \<and>
      pr_id row = ''proj-1704103200000-k3j9x2m1q'' \<and>
      db_ideas (fst ?c) = [ex_idea1\<lparr>ir_convertedToProjectId := Some ''proj-1704103200000-k3j9x2m1q'',
                    ir_status := ''Implemented''\<rparr>]"
    using r(1-11) pid v h2 i' by simp
  then show ?thesis using h1 h2 h3 h4 h5' by blast
qed



section \<open>Saving and re-reading a project\<close>

lemma run_insert_fresh:
  "\<forall>x \<in> set tbl. key x \<noteq> key r \<Longrightarrow> run_insert key tbl r = tbl @ [r]"
  by (simp add: run_insert_def insert_row_def list_ex_iff)

lemma foldl_run_insert_fresh:
  "distinct (map key rs) \<Longrightarrow> \<forall>r \<in> set rs. \<forall>x \<in> set tbl. key x \<noteq> key r \<Longrightarrow>
     foldl (run_insert key) tbl rs = tbl @ rs"
proof (induction rs arbitrary: tbl)
  case Nil
  then show ?case by simp
next
  case (Cons r rs)
  have step: "run_insert key tbl r = tbl @ [r]"
    using Cons.prems(2) by (simp add: run_insert_fresh)
  have d: "distinct (map key rs)" using Cons.prems(1) by simp
  have f: "\<forall>r' \<in> set rs. \<forall>x \<in> set (tbl @ [r]). key x \<noteq> key r'"
    using Cons.prems by auto
  show ?case using Cons.IH[OF d f] step by simp
qed

lemma post_project_projects:
  "db_projects (post_project d userId p) = insert_or_replace pr_id (project_row_of userId p) (db_projects d)"
  by (simp add: post_project_def Let_def)

lemma post_project_tasks:
  "db_project_tasks (post_project d userId p) =
     foldl (run_insert ptr_id) (filter (\<lambda>r. ptr_projectId r \<noteq> p_id p) (db_project_tasks d))
       (map (project_task_row_of (p_id p)) (p_tasks p))"
  by (simp add: post_project_def Let_def)

lemma post_project_notes:
  "db_research_notes (post_project d userId p) =
     foldl (run_insert rnr_id) (filter (\<lambda>r. rnr_projectId r \<noteq> p_id p) (db_research_notes d))
       (map (research_note_row_of (p_id p)) (p_researchNotes p))"
  by (simp add: post_project_def Let_def)

lemma post_project_tasks_clean:
  assumes "distinct (map pt_id (p_tasks p))"
      and "\<forall>r \<in> set (db_project_tasks d). \<forall>t \<in> set (p_tasks p).
             ptr_id r = pt_id t \<longrightarrow> ptr_projectId r = p_id p"
  shows "db_project_tasks (post_project d userId p) =
           filter (\<lambda>r. ptr_projectId r \<noteq> p_id p) (db_project_tasks d) @
           map (project_task_row_of (p_id p)) (p_tasks p)"
proof -
  have k: "map ptr_id (map (project_task_row_of (p_id p)) (p_tasks p)) = map pt_id (p_tasks p)"
    by (simp add: project_task_row_of_def comp_def)
  have d: "distinct (map ptr_id (map (project_task_row_of (p_id p)) (p_tasks p)))"
    unfolding k by (rule assms(1))
  have f: "\<forall>r \<in> set (map (project_task_row_of (p_id p)) (p_tasks p)).
             \<forall>x \<in> set (filter (\<lambda>r. ptr_projectId r \<noteq> p_id p) (db_project_tasks d)).
               ptr_id x \<noteq> ptr_id r"
    using assms(2) by (auto simp: project_task_row_of_def)
  show ?thesis unfolding post_project_tasks by (rule foldl_run_insert_fresh[OF d f])
qed

lemma post_project_notes_clean:
  assumes "distinct (map rn_id (p_researchNotes p))"
      and "\<forall>r \<in> set (db_research_notes d). \<forall>n \<in> set (p_researchNotes p).
             rnr_id r = rn_id n \<longrightarrow> rnr_projectId r = p_id p"
  shows "db_research_notes (post_project d userId p) =
           filter (\<lambda>r. rnr_projectId r \<noteq> p_id p) (db_research_notes d) @
           map (research_note_row_of (p_id p)) (p_researchNotes p)"
proof -
  have k: "map rnr_id (map (research_note_row_of (p_id p)) (p_researchNotes p)) = map rn_id (p_researchNotes p)"
    by (simp add: research_note_row_of_def comp_def)
  have d: "distinct (map rnr_id (map (research_note_row_of (p_id p)) (p_researchNotes p)))"
    unfolding k by (rule assms(1))
  have f: "\<forall>r \<in> set (map (research_note_row_of (p_id p)) (p_researchNotes p)).
             \<forall>x \<in> set (filter (\<lambda>r. rnr_projectId r \<noteq> p_id p) (db_research_notes d)).
               rnr_id x \<noteq> rnr_id r"
    using assms(2) by (auto simp: research_note_row_of_def)
  show ?thesis unfolding post_project_notes by (rule foldl_run_insert_fresh[OF d f])
qed

lemma filter_own_children:
  "(\<And>x. x \<in> set new \<Longrightarrow> P x) \<Longrightarrow> filter P (filter (\<lambda>r. \<not> P r) old @ new) = new"
  by (induction old) (auto simp: filter_id_conv)

lemma not_not_flag: "not_not (flag b) = b"
  by (simp add: not_not_def flag_def)

lemma filter_project_row:
  "filter (\<lambda>r. pr_id r = pr_id row) (filter (\<lambda>r. pr_userId r = pr_userId row) (insert_or_replace pr_id row tbl)) = [row]"
  by (induction tbl) (auto simp: insert_or_replace_def)

lemma ProjectTask_eta:
  "\<lparr>pt_id = pt_id x, pt_content = pt_content x, pt_isCompleted = pt_isCompleted x\<rparr> = (x::ProjectTask)"
  by (cases x) simp

lemma ResearchNote_eta:
  "\<lparr>rn_id = rn_id x, rn_date = rn_date x, rn_content = rn_content x,
    rn_createdAt = rn_createdAt x\<rparr> = (x::ResearchNote)"
  by (cases x) simp

text \<open>
  Claim C2, as amended. When the ProjectTask ids of the submitted project are pairwise
  distinct and none of them is the id of a stored ProjectTask of another project, and
  likewise for the ResearchNotes, then after the project save the projects list of the same
  user holds exactly one project with the submitted id, and its tasks and researchNotes are
  exactly the submitted arrays, in order (each row also carries the project's id). The child
  rows stored under that project id are exactly the submitted ones: nothing from an earlier
  save survives.
\<close>

theorem post_project_then_get:
  assumes dt: "distinct (map pt_id (p_tasks p))"
      and dn: "distinct (map rn_id (p_researchNotes p))"
      and free_t: "\<forall>r \<in> set (db_project_tasks d). \<forall>t \<in> set (p_tasks p).
                 ptr_id r = pt_id t \<longrightarrow> ptr_projectId r = p_id p"
      and free_n: "\<forall>r \<in> set (db_research_notes d). \<forall>n \<in> set (p_researchNotes p).
                 rnr_id r = rn_id n \<longrightarrow> rnr_projectId r = p_id p"
  shows "filter (\<lambda>v. pr_id (pv_row v) = p_id p) (get_projects (post_project d userId p) userId) =
           [\<lparr>pv_row = project_row_of userId p,
             pv_tasks = map (\<lambda>t. \<lparr>ptv_row = project_task_row_of (p_id p) t,
                                   ptv_isCompleted = pt_isCompleted t\<rparr>) (p_tasks p),
             pv_researchNotes = map (research_note_row_of (p_id p)) (p_researchNotes p)\<rparr>] \<and>
         (\<forall>v \<in> set (get_projects (post_project d userId p) userId).
            pr_id (pv_row v) = p_id p \<longrightarrow>
              map (\<lambda>t. \<lparr>pt_id = ptr_id (ptv_row t), pt_content = ptr_content (ptv_row t),
                         pt_isCompleted = ptv_isCompleted t\<rparr>) (pv_tasks v) = p_tasks p \<and>
              map (\<lambda>n. \<lparr>rn_id = rnr_id n, rn_date = rnr_date n, rn_content = rnr_content n,
                         rn_createdAt = rnr_createdAt n\<rparr>) (pv_researchNotes v)
                = p_researchNotes p) \<and>
         filter (\<lambda>r. ptr_projectId r = p_id p) (db_project_tasks (post_project d userId p)) =
           map (project_task_row_of (p_id p)) (p_tasks p) \<and>
         filter (\<lambda>r. rnr_projectId r = p_id p) (db_research_notes (post_project d userId p)) =
           map (research_note_row_of (p_id p)) (p_researchNotes p)"
proof -
  let ?d = "post_project d userId p"
  let ?view = "\<lparr>pv_row = project_row_of userId p,
             pv_tasks = map (\<lambda>t. \<lparr>ptv_row = project_task_row_of (p_id p) t,
                                   ptv_isCompleted = pt_isCompleted t\<rparr>) (p_tasks p),
             pv_researchNotes = map (research_note_row_of (p_id p)) (p_researchNotes p)\<rparr>"
  have tks: "filter (\<lambda>r. ptr_projectId r = p_id p) (db_project_tasks ?d) =
                 map (project_task_row_of (p_id p)) (p_tasks p)"
    unfolding post_project_tasks_clean[OF dt free_t]
    by (rule filter_own_children) (auto simp: project_task_row_of_def)
  have nts: "filter (\<lambda>r. rnr_projectId r = p_id p) (db_research_notes ?d) =
                 map (research_note_row_of (p_id p)) (p_researchNotes p)"
    unfolding post_project_notes_clean[OF dn free_n]
    by (rule filter_own_children) (auto simp: research_note_row_of_def)
  have row: "filter (\<lambda>r. pr_id r = p_id p) (filter (\<lambda>r. pr_userId r = Some userId) (db_projects ?d))
               = [project_row_of userId p]"
    using filter_project_row[of "project_row_of userId p" "db_projects d"]
    by (simp add: post_project_projects project_row_of_def)
  have "filter (\<lambda>v. pr_id (pv_row v) = p_id p) (get_projects ?d userId) =
          map (\<lambda>r. \<lparr>pv_row = r,
                pv_tasks = map (\<lambda>t. \<lparr>ptv_row = t, ptv_isCompleted = not_not (ptr_isCompleted t)\<rparr>)
                             (filter (\<lambda>t. ptr_projectId t = pr_id r) (db_project_tasks ?d)),
                pv_researchNotes = filter (\<lambda>n. rnr_projectId n = pr_id r) (db_research_notes ?d)\<rparr>)
            (filter (\<lambda>r. pr_id r = p_id p) (filter (\<lambda>r. pr_userId r = Some userId) (db_projects ?d)))"
    by (simp add: get_projects_def filter_map comp_def)
  also have "\<dots> = [?view]"
    unfolding row
    by (simp add: tks nts project_row_of_def)
       (simp add: project_task_row_of_def not_not_flag)
  finally have one: "filter (\<lambda>v. pr_id (pv_row v) = p_id p) (get_projects ?d userId) = [?view]" .
  have back_t: "map (\<lambda>t. \<lparr>pt_id = ptr_id (ptv_row t), pt_content = ptr_content (ptv_row t),
                         pt_isCompleted = ptv_isCompleted t\<rparr>) (pv_tasks ?view) = p_tasks p"
    by (simp add: comp_def project_task_row_of_def ProjectTask_eta)
  have back_n: "map (\<lambda>n. \<lparr>rn_id = rnr_id n, rn_date = rnr_date n, rn_content = rnr_content n,
                         rn_createdAt = rnr_createdAt n\<rparr>) (pv_researchNotes ?view)
                = p_researchNotes p"
    by (simp add: comp_def research_note_row_of_def ResearchNote_eta)
  have all: "\<forall>v \<in> set (get_projects ?d userId).
            pr_id (pv_row v) = p_id p \<longrightarrow>
              map (\<lambda>t. \<lparr>pt_id = ptr_id (ptv_row t), pt_content = ptr_content (ptv_row t),
                         pt_isCompleted = ptv_isCompleted t\<rparr>) (pv_tasks v) = p_tasks p \<and>
              map (\<lambda>n. \<lparr>rn_id = rnr_id n, rn_date = rnr_date n, rn_content = rnr_content n,
                         rn_createdAt = rnr_createdAt n\<rparr>) (pv_researchNotes v)
                = p_researchNotes p"
  proof (intro ballI impI)
    fix v assume v: "v \<in> set (get_projects ?d userId)" "pr_id (pv_row v) = p_id p"
    then have "v \<in> set (filter (\<lambda>v. pr_id (pv_row v) = p_id p) (get_projects ?d userId))" by simp
    then have "v = ?view" unfolding one by simp
    then show "map (\<lambda>t. \<lparr>pt_id = ptr_id (ptv_row t), pt_content = ptr_content (ptv_row t),
                         pt_isCompleted = ptv_isCompleted t\<rparr>) (pv_tasks v) = p_tasks p \<and>
              map (\<lambda>n. \<lparr>rn_id = rnr_id n, rn_date = rnr_date n, rn_content = rnr_content n,
                         rn_createdAt = rnr_createdAt n\<rparr>) (pv_researchNotes v)
                = p_researchNotes p"
      using back_t back_n by simp
  qed
  show ?thesis using one all tks nts by blast
qed

theorem post_project_then_get_witness:
  "distinct (map pt_id (p_tasks ex_p1_edited)) \<and>
   distinct (map rn_id (p_researchNotes ex_p1_edited)) \<and>
   \<not> (\<exists>r \<in> set (db_project_tasks ex_db). \<exists>t \<in> set (p_tasks ex_p1_edited).
          ptr_id r = pt_id t \<and> ptr_projectId r \<noteq> p_id ex_p1_edited) \<and>
   \<not> (\<exists>r \<in> set (db_research_notes ex_db). \<exists>n \<in> set (p_researchNotes ex_p1_edited).
          rnr_id r = rn_id n \<and> rnr_projectId r \<noteq> p_id ex_p1_edited) \<and>
   map ptr_id (filter (\<lambda>r. ptr_projectId r = ''p-1'') (db_project_tasks ex_db)) = [''pt-1'', ''pt-2''] \<and>
   filter (\<lambda>v. pr_id (pv_row v) = ''p-1'')
     (get_projects (post_project ex_db ''user-1'' ex_p1_edited) ''user-1'') =
     [\<lparr>pv_row = project_row_of ''user-1'' ex_p1_edited,
       pv_tasks =
         [\<lparr>ptv_row = \<lparr>ptr_id = ''pt-2'', ptr_projectId = ''p-1'',
                        ptr_content = ''Take practice exam 1'', ptr_isCompleted = 1\<rparr>,
           ptv_isCompleted = True\<rparr>,
          \<lparr>ptv_row = \<lparr>ptr_id = ''pt-3'', ptr_projectId = ''p-1'',
                        ptr_content = ''Book the exam'', ptr_isCompleted = 0\<rparr>,
           ptv_isCompleted = False\<rparr>],
       pv_researchNotes = []\<rparr>] \<and>
   map ptr_id (filter (\<lambda>r. ptr_projectId r = ''p-1'')
                 (db_project_tasks (post_project ex_db ''user-1'' ex_p1_edited))) = [''pt-2'', ''pt-3''] \<and>
   filter (\<lambda>r. rnr_projectId r = ''p-1'')
     (db_research_notes (post_project ex_db ''user-1'' ex_p1_edited)) = []"
proof -
  have pid: "p_id ex_p1_edited = ''p-1''" by (simp add: ex_p1_edited_def ex_p1_def)
  have tl: "p_tasks ex_p1_edited =
      [\<lparr>pt_id = ''pt-2'', pt_content = ''Take practice exam 1'', pt_isCompleted = True\<rparr>,
       \<lparr>pt_id = ''pt-3'', pt_content = ''Book the exam'', pt_isCompleted = False\<rparr>]"
    and nl: "p_researchNotes ex_p1_edited = []"
    by (simp_all add: ex_p1_edited_def)
  have old_t: "db_project_tasks ex_db = map (project_task_row_of ''p-1'') (p_tasks ex_p1)"
    and old_n: "db_research_notes ex_db = map (research_note_row_of ''p-1'') (p_researchNotes ex_p1)"
    by (simp_all add: ex_db_def)
  have h1: "distinct (map pt_id (p_tasks ex_p1_edited))" by (simp add: tl)
  have h2: "distinct (map rn_id (p_researchNotes ex_p1_edited))" by (simp add: nl)
  have h3: "\<forall>r \<in> set (db_project_tasks ex_db). \<forall>t \<in> set (p_tasks ex_p1_edited).
              ptr_id r = pt_id t \<longrightarrow> ptr_projectId r = p_id ex_p1_edited"
    by (simp add: old_t pid project_task_row_of_def)
  have h4: "\<forall>r \<in> set (db_research_notes ex_db). \<forall>n \<in> set (p_researchNotes ex_p1_edited).
              rnr_id r = rn_id n \<longrightarrow> rnr_projectId r = p_id ex_p1_edited"
    by (simp add: nl)
  note r = post_project_then_get[OF h1 h2 h3 h4, of "''user-1''"]
  have before: "map ptr_id (filter (\<lambda>r. ptr_projectId r = ''p-1'') (db_project_tasks ex_db)) = [''pt-1'', ''pt-2'']"
    by (simp add: old_t ex_p1_def project_task_row_of_def)
  have a: "filter (\<lambda>v. pr_id (pv_row v) = ''p-1'')
     (get_projects (post_project ex_db ''user-1'' ex_p1_edited) ''user-1'') =
     [\<lparr>pv_row = project_row_of ''user-1'' ex_p1_edited,
       pv_tasks =
         [\<lparr>ptv_row = \<lparr>ptr_id = ''pt-2'', ptr_projectId = ''p-1'',
                        ptr_content = ''Take practice exam 1'', ptr_isCompleted = 1\<rparr>,
           ptv_isCompleted = True\<rparr>,
          \<lparr>ptv_row = \<lparr>ptr_id = ''pt-3'', ptr_projectId = ''p-1'',
                        ptr_content = ''Book the exam'', ptr_isCompleted = 0\<rparr>,
           ptv_isCompleted = False\<rparr>],
       pv_researchNotes = []\<rparr>]"
    using r[THEN conjunct1] by (simp add: pid tl nl project_task_row_of_def flag_def)
  have b: "map ptr_id (filter (\<lambda>r. ptr_projectId r = ''p-1'')
                 (db_project_tasks (post_project ex_db ''user-1'' ex_p1_edited))) = [''pt-2'', ''pt-3'']"
    using r[THEN conjunct2, THEN conjunct2, THEN conjunct1]
    by (simp add: pid tl project_task_row_of_def)
  have c: "filter (\<lambda>r. rnr_projectId r = ''p-1'')
     (db_research_notes (post_project ex_db ''user-1'' ex_p1_edited)) = []"
    using r[THEN conjunct2, THEN conjunct2, THEN conjunct2] by (simp add: pid nl)
  have h3': "\<not> (\<exists>r \<in> set (db_project_tasks ex_db). \<exists>t \<in> set (p_tasks ex_p1_edited).
          ptr_id r = pt_id t \<and> ptr_projectId r \<noteq> p_id ex_p1_edited)"
    using h3 by blast
  have h4': "\<not> (\<exists>r \<in> set (db_research_notes ex_db). \<exists>n \<in> set (p_researchNotes ex_p1_edited).
          rnr_id r = rn_id n \<and> rnr_projectId r \<noteq> p_id ex_p1_edited)"
    using h4 by blast
  show ?thesis using h1 h2 h3' h4' before a b c by blast
qed

text \<open>
  The claim as written fails when a submitted ProjectTask id is already the id of a task of
  another project, and when two submitted ProjectTasks have the same id: the primary key of
  project_tasks rejects the insert, and the project reads back without the task that was
  submitted.
\<close>

theorem post_project_id_collision:
  "p_tasks ex_p2_clash = [\<lparr>pt_id = ''pt-1'', pt_content = ''Survey team'', pt_isCompleted = False\<rparr>] \<and>
   map (pr_id \<circ> pv_row) (get_projects (post_project ex_db ''user-1'' ex_p2_clash) ''user-1'') =
     [''p-1'', ''p-2''] \<and>
   map (map (ptr_id \<circ> ptv_row) \<circ> pv_tasks)
       (get_projects (post_project ex_db ''user-1'' ex_p2_clash) ''user-1'') = [[''pt-1'', ''pt-2''], []] \<and>
   map pt_content (p_tasks ex_p2_twice) = [''Survey team'', ''Collect answers''] \<and>
   map (pr_id \<circ> pv_row) (get_projects (post_project ex_db ''user-1'' ex_p2_twice) ''user-1'') =
     [''p-1'', ''p-2''] \<and>
   map (map (ptr_content \<circ> ptv_row) \<circ> pv_tasks)
       (get_projects (post_project ex_db ''user-1'' ex_p2_twice) ''user-1'') =
     [[''Complete Section 1-4'', ''Take practice exam 1''], [''Survey team'']]"
  by (simp add: ex_p2_clash_def ex_p2_twice_def ex_p2_def ex_db_def ex_p1_def empty_db_def
      post_project_def get_projects_def Let_def insert_or_replace_def run_insert_def
      insert_row_def project_row_of_def project_task_row_of_def research_note_row_of_def js_or_def)

section \<open>Registration\<close>

lemma find_stored_email:
  assumes "\<exists>u \<in> set us. ur_email u = e"
  shows "\<exists>row. List.find (\<lambda>u. ur_email u = e) us = Some row"
proof (cases "List.find (\<lambda>u. ur_email u = e) us")
  case None
  then show ?thesis using assms by (simp add: find_None_iff)
next
  case (Some row)
  then show ?thesis by simp
qed

lemma ex_email_utf8: "utf8 (toLowerCaseASCII (ascii ''Alice@Example.com'')) = ''alice@example.com''"
proof -
  have units: "codePoints (toLowerCaseASCII (ascii ''Alice@Example.com'')) =
      [97, 108, 105, 99, 101, 64, 101, 120, 97, 109, 112, 108, 101, 46, 99, 111, 109]"
    by (simp add: ascii_def toLowerCaseASCII_def codeUnitAlone_def isHighSurrogate_def
        isLowSurrogate_def)
  have bytes: "concat (map utf8Bytes
      [97, 108, 105, 99, 101, 64, 101, 120, 97, 109, 112, 108, 101, 46, 99, 111, 109]) =
      ''alice@example.com''"
    by code_simp
  show ?thesis unfolding utf8_def units by (rule bytes)
qed

lemma ex_password_length: "length (ascii ''secret1'') = 7" "length (ascii ''abc'') = 3"
  by (simp_all add: ascii_def)

lemma ex_strings_nonempty:
  "ascii ''Alice@Example.com'' \<noteq> []" "ascii ''secret1'' \<noteq> []" "ascii ''abc'' \<noteq> []"
  "ascii ''Alice'' \<noteq> []"
  by (simp_all add: ascii_def)

text \<open>
  A successful registration stores the lower-cased email, so a later request whose email
  has the same lower-cased form finds it.
\<close>

lemma register_stores_lower:
  assumes "register toLowerCase d body passwordHash dateNow rnd now = (d', Json msg)"
      and "rb_email body = Some email"
  shows "\<exists>u \<in> set (db_users d'). ur_email u = utf8 (toLowerCase email)"
  using assms
  by (cases "rb_password body"; cases "rb_name body")
     (auto simp: register_def insert_user_def split: if_splits option.splits)

text \<open>
  The length test counts code units, not bytes: a password of three accented letters is
  six bytes in UTF-8 and is refused as too short.
\<close>

lemma register_password_length_in_code_units:
  "length (utf8 [0xE9, 0xE9, 0xE9]) = 6 \<and>
   register toLowerCaseASCII ex_db ex_register_accents ''$2b$10$hash2'' ''1704103200000''
     ''k3j9x2m1q'' ''2024-01-01T10:00:00.000Z'' =
     (ex_db, Error 400 ''Password must be at least 6 characters'')"
proof -
  have "codePoints [0xE9, 0xE9, 0xE9] = [0xE9, 0xE9, 0xE9]"
    by (simp add: codeUnitAlone_def isHighSurrogate_def isLowSurrogate_def)
  then have "length (utf8 [0xE9, 0xE9, 0xE9]) = 6"
    by (simp add: utf8_def utf8Bytes_def)
  then show ?thesis
    by (simp add: register_def ex_register_accents_def ex_register_def ex_strings_nonempty)
qed

text \<open>
  Claim C9, as amended. The handler looks for a stored user whose email is the request's
  email in lower case, which is the form registration stores. A registration request for
  which there is such a user gets status 400 and leaves the store unchanged, whatever else
  it holds. When the request passes the handler's validation (email, password and name
  present and not empty, password of at least six code units) the message is "Email already
  registered"; when the password is shorter it is the password message, and when a field
  is missing or empty it is the message that the three fields are required.
\<close>

theorem register_existing_email:
  assumes email: "rb_email body = Some email"
      and taken: "\<exists>u \<in> set (db_users d). ur_email u = utf8 (toLowerCase email)"
  shows "(\<exists>msg. register toLowerCase d body passwordHash dateNow rnd now = (d, Error 400 msg)) \<and>
         (\<forall>password name.
            rb_password body = Some password \<and> rb_name body = Some name \<and>
            email \<noteq> [] \<and> password \<noteq> [] \<and> name \<noteq> [] \<and> 6 \<le> length password \<longrightarrow>
            register toLowerCase d body passwordHash dateNow rnd now =
              (d, Error 400 ''Email already registered'')) \<and>
         (\<forall>password name.
            rb_password body = Some password \<and> rb_name body = Some name \<and>
            email \<noteq> [] \<and> password \<noteq> [] \<and> name \<noteq> [] \<and> length password < 6 \<longrightarrow>
            register toLowerCase d body passwordHash dateNow rnd now =
              (d, Error 400 ''Password must be at least 6 characters'')) \<and>
         (email = [] \<or> \<not> truthy (rb_password body) \<or> \<not> truthy (rb_name body) \<longrightarrow>
            register toLowerCase d body passwordHash dateNow rnd now =
              (d, Error 400 ''Email, password, and name are required''))"
proof -
  obtain row where row:
    "List.find (\<lambda>u. ur_email u = utf8 (toLowerCase email)) (db_users d) = Some row"
    using find_stored_email[OF taken] by auto
  have a: "\<exists>msg. register toLowerCase d body passwordHash dateNow rnd now = (d, Error 400 msg)"
    using email row
    by (cases "rb_password body"; cases "rb_name body") (auto simp: register_def)
  have b: "\<forall>password name.
            rb_password body = Some password \<and> rb_name body = Some name \<and>
            email \<noteq> [] \<and> password \<noteq> [] \<and> name \<noteq> [] \<and> 6 \<le> length password \<longrightarrow>
            register toLowerCase d body passwordHash dateNow rnd now =
              (d, Error 400 ''Email already registered'')"
    using email row by (auto simp: register_def)
  have c: "\<forall>password name.
            rb_password body = Some password \<and> rb_name body = Some name \<and>
            email \<noteq> [] \<and> password \<noteq> [] \<and> name \<noteq> [] \<and> length password < 6 \<longrightarrow>
            register toLowerCase d body passwordHash dateNow rnd now =
              (d, Error 400 ''Password must be at least 6 characters'')"
    using email by (auto simp: register_def)
  have e: "email = [] \<or> \<not> truthy (rb_password body) \<or> \<not> truthy (rb_name body) \<longrightarrow>
            register toLowerCase d body passwordHash dateNow rnd now =
              (d, Error 400 ''Email, password, and name are required'')"
    using email by (auto simp: register_def)
  show ?thesis using a b c e by blast
qed

theorem register_existing_email_witness:
  "rb_email ex_register = Some (ascii ''Alice@Example.com'') \<and>
   (\<exists>u \<in> set (db_users ex_db).
      ur_email u = utf8 (toLowerCaseASCII (ascii ''Alice@Example.com''))) \<and>
   rb_password ex_register = Some (ascii ''secret1'') \<and>
   rb_name ex_register = Some (ascii ''Alice'') \<and>
   ascii ''Alice@Example.com'' \<noteq> [] \<and> ascii ''secret1'' \<noteq> [] \<and> ascii ''Alice'' \<noteq> [] \<and>
   6 \<le> length (ascii ''secret1'') \<and>
   register toLowerCaseASCII ex_db ex_register ''$2b$10$hash2'' ''1704103200000'' ''k3j9x2m1q''
     ''2024-01-01T10:00:00.000Z'' = (ex_db, Error 400 ''Email already registered'') \<and>
   rb_email (ex_register\<lparr>rb_name := None\<rparr>) = Some (ascii ''Alice@Example.com'') \<and>
   \<not> truthy (rb_name (ex_register\<lparr>rb_name := None\<rparr>)) \<and>
   register toLowerCaseASCII ex_db (ex_register\<lparr>rb_name := None\<rparr>) ''$2b$10$hash2''
     ''1704103200000'' ''k3j9x2m1q'' ''2024-01-01T10:00:00.000Z'' =
     (ex_db, Error 400 ''Email, password, and name are required'')"
proof -
  have users: "db_users ex_db = [ex_user]" by (simp add: ex_db_def)
  have mail: "ur_email ex_user = ''alice@example.com''" by (simp add: ex_user_def)
  have h1: "rb_email ex_register = Some (ascii ''Alice@Example.com'')"
    by (simp add: ex_register_def)
  have h2: "\<exists>u \<in> set (db_users ex_db).
      ur_email u = utf8 (toLowerCaseASCII (ascii ''Alice@Example.com''))"
    by (simp add: users mail ex_email_utf8)
  have h3: "rb_password ex_register = Some (ascii ''secret1'')"
    "rb_name ex_register = Some (ascii ''Alice'')"
    by (simp_all add: ex_register_def)
  have h4: "6 \<le> length (ascii ''secret1'')" by (simp add: ex_password_length)
  have r1: "register toLowerCaseASCII ex_db ex_register ''$2b$10$hash2'' ''1704103200000''
     ''k3j9x2m1q'' ''2024-01-01T10:00:00.000Z'' = (ex_db, Error 400 ''Email already registered'')"
    using register_existing_email[where toLowerCase = toLowerCaseASCII and d = ex_db
        and body = ex_register and email = "ascii ''Alice@Example.com''", OF h1 h2,
        THEN conjunct2, THEN conjunct1, rule_format, of "ascii ''secret1''" "ascii ''Alice''"]
      h3 h4 ex_strings_nonempty by blast
  have g1: "rb_email (ex_register\<lparr>rb_name := None\<rparr>) = Some (ascii ''Alice@Example.com'')"
    by (simp add: ex_register_def)
  have g2: "\<not> truthy (rb_name (ex_register\<lparr>rb_name := None\<rparr>))" by simp
  have r2: "register toLowerCaseASCII ex_db (ex_register\<lparr>rb_name := None\<rparr>) ''$2b$10$hash2''
     ''1704103200000'' ''k3j9x2m1q'' ''2024-01-01T10:00:00.000Z'' =
     (ex_db, Error 400 ''Email, password, and name are required'')"
    using register_existing_email[where toLowerCase = toLowerCaseASCII and d = ex_db
        and body = "ex_register\<lparr>rb_name := None\<rparr>" and email = "ascii ''Alice@Example.com''",
        OF g1 h2, THEN conjunct2, THEN conjunct2, THEN conjunct2]
      g2 by blast
  show ?thesis using h1 h2 h3 h4 ex_strings_nonempty r1 g1 g2 r2 by blast
qed

text \<open>
  The claim as written fails where the request does not pass validation: the guards on the
  body come before the lookup, so a request for a taken email with a password of three
  letters gets status 400 with the password message, not the "already registered" one.
\<close>

theorem register_existing_email_short_password:
  "db_users ex_db = [ex_user] \<and>
   ur_email ex_user = utf8 (toLowerCaseASCII (ascii ''Alice@Example.com'')) \<and>
   rb_email ex_register_short = Some (ascii ''Alice@Example.com'') \<and>
   register toLowerCaseASCII ex_db ex_register_short ''$2b$10$hash2'' ''1704103200000''
     ''k3j9x2m1q'' ''2024-01-01T10:00:00.000Z'' =
     (ex_db, Error 400 ''Password must be at least 6 characters'')"
  by (simp add: register_def ex_register_short_def ex_register_def ex_db_def ex_user_def
      ex_email_utf8 ex_strings_nonempty ex_password_length)
section \<open>Saving and listing entities\<close>

lemma those_snoc:
  "those xs = Some a \<Longrightarrow> those (xs @ [Some y]) = Some (a @ [y])"
  by (induction xs arbitrary: a) (auto split: option.splits)

lemma those_map_filter:
  assumes "those (map f xs) = Some ys"
      and "\<And>x y. f x = Some y \<Longrightarrow> Q y = P x"
  shows "those (map f (filter P xs)) = Some (filter Q ys)"
  using assms(1)
proof (induction xs arbitrary: ys)
  case Nil
  then show ?case by simp
next
  case (Cons x xs)
  from Cons.prems obtain y ys' where y: "f x = Some y" "those (map f xs) = Some ys'" "ys = y # ys'"
    by (auto split: option.splits)
  have ih: "those (map f (filter P xs)) = Some (filter Q ys')" by (rule Cons.IH[OF y(2)])
  show ?case using y ih assms(2)[OF y(1)] by simp
qed

lemma filter_insert_or_replace:
  "U r \<Longrightarrow> filter U (insert_or_replace key r tbl) = filter (\<lambda>x. key x \<noteq> key r) (filter U tbl) @ [r]"
  by (induction tbl) (auto simp: insert_or_replace_def)

lemma or_empty_text_stringify: "or_empty_text (Some (JSON_stringify v)) = JSON_stringify v"
  by (simp add: or_empty_text_def or_default_def JSON_stringify_nonempty)

lemma parse_stored: "JSON_parse (or_empty_text (Some (JSON_stringify v))) = Some v"
  by (simp add: or_empty_text_stringify JSON_roundtrip)

lemma not_not_flag_opt: "not_not (flag_opt b) = (b = Some True)"
  by (simp add: not_not_def flag_opt_def)

lemma format_task_row_of:
  "format_task (task_row_of u t) =
     Some \<lparr>tv_row = task_row_of u t, tv_isCompleted = t_isCompleted t,
           tv_isPriority = (t_isPriority t = Some True),
           tv_subtasks = or_empty_array (t_subtasks t)\<rparr>"
  by (simp add: format_task_def parse_stored)
     (simp add: task_row_of_def not_not_flag not_not_flag_opt parse_stored)

lemma format_task_row: "format_task r = Some v \<Longrightarrow> tv_row v = r"
  by (auto simp: format_task_def)

lemma get_tasks_post_task:
  assumes "get_tasks d u = Some old"
  shows "get_tasks (post_task d u t) u =
           Some (filter (\<lambda>v. tr_id (tv_row v) \<noteq> t_id t) old @
                 [\<lparr>tv_row = task_row_of u t, tv_isCompleted = t_isCompleted t,
                   tv_isPriority = (t_isPriority t = Some True),
                   tv_subtasks = or_empty_array (t_subtasks t)\<rparr>])"
proof -
  have id: "tr_id (task_row_of u t) = t_id t" and usr: "tr_userId (task_row_of u t) = Some u"
    by (simp_all add: task_row_of_def)
  have rows: "filter (\<lambda>r. tr_userId r = Some u) (db_tasks (post_task d u t)) =
                filter (\<lambda>x. tr_id x \<noteq> t_id t) (filter (\<lambda>r. tr_userId r = Some u) (db_tasks d)) @
                [task_row_of u t]"
    using filter_insert_or_replace[of "\<lambda>r. tr_userId r = Some u" "task_row_of u t" tr_id "db_tasks d"]
    by (simp add: post_task_def usr id)
  have kept: "those (map format_task (filter (\<lambda>x. tr_id x \<noteq> t_id t)
                 (filter (\<lambda>r. tr_userId r = Some u) (db_tasks d)))) =
              Some (filter (\<lambda>v. tr_id (tv_row v) \<noteq> t_id t) old)"
  proof (rule those_map_filter)
    show "those (map format_task (filter (\<lambda>r. tr_userId r = Some u) (db_tasks d))) = Some old"
      using assms by (simp add: get_tasks_def)
  next
    fix x y assume "format_task x = Some y"
    then show "(tr_id (tv_row y) \<noteq> t_id t) = (tr_id x \<noteq> t_id t)"
      by (simp add: format_task_row)
  qed
  show ?thesis
    unfolding get_tasks_def rows map_append list.map format_task_row_of
    by (rule those_snoc[OF kept])
qed

lemma format_engagement_row_of:
  "format_engagement (engagement_row_of u e) =
     Some \<lparr>ev_row = engagement_row_of u e, ev_timeline = or_empty_array (e_timeline e),
           ev_files = or_empty_array (e_files e)\<rparr>"
proof -
  have t: "JSON_parse (or_empty_text (er_timeline (engagement_row_of u e))) = Some (or_empty_array (e_timeline e))"
    and f: "JSON_parse (or_empty_text (er_files (engagement_row_of u e))) = Some (or_empty_array (e_files e))"
    by (simp_all add: engagement_row_of_def parse_stored)
  show ?thesis by (simp add: format_engagement_def t f)
qed

lemma format_engagement_row: "format_engagement r = Some v \<Longrightarrow> ev_row v = r"
  by (auto simp: format_engagement_def split: option.splits)

lemma get_engagements_post_engagement:
  assumes "get_engagements d u = Some old"
  shows "get_engagements (post_engagement d u e) u =
           Some (filter (\<lambda>v. er_id (ev_row v) \<noteq> e_id e) old @
                 [\<lparr>ev_row = engagement_row_of u e, ev_timeline = or_empty_array (e_timeline e),
                   ev_files = or_empty_array (e_files e)\<rparr>])"
proof -
  have id: "er_id (engagement_row_of u e) = e_id e" and usr: "er_userId (engagement_row_of u e) = Some u"
    by (simp_all add: engagement_row_of_def)
  have rows: "filter (\<lambda>r. er_userId r = Some u) (db_engagements (post_engagement d u e)) =
                filter (\<lambda>x. er_id x \<noteq> e_id e) (filter (\<lambda>r. er_userId r = Some u) (db_engagements d)) @
                [engagement_row_of u e]"
    using filter_insert_or_replace[of "\<lambda>r. er_userId r = Some u" "engagement_row_of u e" er_id "db_engagements d"]
    by (simp add: post_engagement_def usr id)
  have kept: "those (map format_engagement (filter (\<lambda>x. er_id x \<noteq> e_id e)
                 (filter (\<lambda>r. er_userId r = Some u) (db_engagements d)))) =
              Some (filter (\<lambda>v. er_id (ev_row v) \<noteq> e_id e) old)"
  proof (rule those_map_filter)
    show "those (map format_engagement (filter (\<lambda>r. er_userId r = Some u) (db_engagements d))) = Some old"
      using assms by (simp add: get_engagements_def)
  next
    fix x y assume "format_engagement x = Some y"
    then show "(er_id (ev_row y) \<noteq> e_id e) = (er_id x \<noteq> e_id e)"
      by (simp add: format_engagement_row)
  qed
  show ?thesis
    unfolding get_engagements_def rows map_append list.map format_engagement_row_of
    by (rule those_snoc[OF kept])
qed

lemma format_note_row_of:
  "format_note (note_row_of u n) =
     Some \<lparr>nv_row = note_row_of u n, nv_tags = or_empty_array (n_tags n)\<rparr>"
proof -
  have t: "JSON_parse (or_empty_text (nr_tags (note_row_of u n))) = Some (or_empty_array (n_tags n))"
    by (simp add: note_row_of_def parse_stored)
  show ?thesis by (simp add: format_note_def t)
qed

lemma format_note_row: "format_note r = Some v \<Longrightarrow> nv_row v = r"
  by (auto simp: format_note_def)

lemma get_notes_post_note:
  assumes "get_notes d u = Some old"
  shows "get_notes (post_note d u n) u =
           Some (filter (\<lambda>v. nr_id (nv_row v) \<noteq> n_id n) old @
                 [\<lparr>nv_row = note_row_of u n, nv_tags = or_empty_array (n_tags n)\<rparr>])"
proof -
  have id: "nr_id (note_row_of u n) = n_id n" and usr: "nr_userId (note_row_of u n) = Some u"
    by (simp_all add: note_row_of_def)
  have rows: "filter (\<lambda>r. nr_userId r = Some u) (db_notes (post_note d u n)) =
                filter (\<lambda>x. nr_id x \<noteq> n_id n) (filter (\<lambda>r. nr_userId r = Some u) (db_notes d)) @
                [note_row_of u n]"
    using filter_insert_or_replace[of "\<lambda>r. nr_userId r = Some u" "note_row_of u n" nr_id "db_notes d"]
    by (simp add: post_note_def usr id)
  have kept: "those (map format_note (filter (\<lambda>x. nr_id x \<noteq> n_id n)
                 (filter (\<lambda>r. nr_userId r = Some u) (db_notes d)))) =
              Some (filter (\<lambda>v. nr_id (nv_row v) \<noteq> n_id n) old)"
  proof (rule those_map_filter)
    show "those (map format_note (filter (\<lambda>r. nr_userId r = Some u) (db_notes d))) = Some old"
      using assms by (simp add: get_notes_def)
  next
    fix x y assume "format_note x = Some y"
    then show "(nr_id (nv_row y) \<noteq> n_id n) = (nr_id x \<noteq> n_id n)"
      by (simp add: format_note_row)
  qed
  show ?thesis
    unfolding get_notes_def rows map_append list.map format_note_row_of
    by (rule those_snoc[OF kept])
qed

lemma filter_map_view:
  "(\<And>x. key' (f x) = key x) \<Longrightarrow>
     map f (filter (\<lambda>x. key x \<noteq> k) xs) = filter (\<lambda>v. key' v \<noteq> k) (map f xs)"
  by (induction xs) auto

lemma get_highlights_post_highlight:
  "get_highlights (post_highlight d u h) u =
     filter (\<lambda>v. hr_id (hv_row v) \<noteq> h_id h) (get_highlights d u) @
     [\<lparr>hv_row = highlight_row_of u h, hv_needsFollowUp = h_needsFollowUp h\<rparr>]"
proof -
  have id: "hr_id (highlight_row_of u h) = h_id h" and usr: "hr_userId (highlight_row_of u h) = Some u"
    and fl: "not_not (hr_needsFollowUp (highlight_row_of u h)) = h_needsFollowUp h"
    by (simp_all add: highlight_row_of_def not_not_flag)
  have rows: "filter (\<lambda>r. hr_userId r = Some u) (db_highlights (post_highlight d u h)) =
                filter (\<lambda>x. hr_id x \<noteq> h_id h) (filter (\<lambda>r. hr_userId r = Some u) (db_highlights d)) @
                [highlight_row_of u h]"
    using filter_insert_or_replace[of "\<lambda>r. hr_userId r = Some u" "highlight_row_of u h" hr_id "db_highlights d"]
    by (simp add: post_highlight_def usr id)
  have kept: "map (\<lambda>r. \<lparr>hv_row = r, hv_needsFollowUp = not_not (hr_needsFollowUp r)\<rparr>)
                (filter (\<lambda>x. hr_id x \<noteq> h_id h) (filter (\<lambda>r. hr_userId r = Some u) (db_highlights d)))
              = filter (\<lambda>v. hr_id (hv_row v) \<noteq> h_id h)
                  (map (\<lambda>r. \<lparr>hv_row = r, hv_needsFollowUp = not_not (hr_needsFollowUp r)\<rparr>)
                     (filter (\<lambda>r. hr_userId r = Some u) (db_highlights d)))"
    by (rule filter_map_view) simp
  show ?thesis
    unfolding get_highlights_def rows map_append list.map kept fl ..
qed

lemma get_calendar_post_calendar:
  "get_calendar (post_calendar d u c) u =
     filter (\<lambda>v. cr_id (cv_row v) \<noteq> c_id c) (get_calendar d u) @
     [\<lparr>cv_row = calendar_event_row_of u c, cv_momSent = (c_momSent c = Some True)\<rparr>]"
proof -
  have id: "cr_id (calendar_event_row_of u c) = c_id c"
    and usr: "cr_userId (calendar_event_row_of u c) = Some u"
    and fl: "not_not (cr_momSent (calendar_event_row_of u c)) = (c_momSent c = Some True)"
    by (simp_all add: calendar_event_row_of_def not_not_flag_opt)
  have rows: "filter (\<lambda>r. cr_userId r = Some u) (db_calendar_events (post_calendar d u c)) =
                filter (\<lambda>x. cr_id x \<noteq> c_id c) (filter (\<lambda>r. cr_userId r = Some u) (db_calendar_events d)) @
                [calendar_event_row_of u c]"
    using filter_insert_or_replace[of "\<lambda>r. cr_userId r = Some u" "calendar_event_row_of u c" cr_id "db_calendar_events d"]
    by (simp add: post_calendar_def usr id)
  have kept: "map (\<lambda>r. \<lparr>cv_row = r, cv_momSent = not_not (cr_momSent r)\<rparr>)
                (filter (\<lambda>x. cr_id x \<noteq> c_id c) (filter (\<lambda>r. cr_userId r = Some u) (db_calendar_events d)))
              = filter (\<lambda>v. cr_id (cv_row v) \<noteq> c_id c)
                  (map (\<lambda>r. \<lparr>cv_row = r, cv_momSent = not_not (cr_momSent r)\<rparr>)
                     (filter (\<lambda>r. cr_userId r = Some u) (db_calendar_events d)))"
    by (rule filter_map_view) simp
  show ?thesis
    unfolding get_calendar_def rows map_append list.map kept fl ..
qed

lemma get_ideas_post_idea:
  "get_ideas (post_idea d u i) u now =
     filter (\<lambda>v. ir_id (iv_row v) \<noteq> i_id i) (get_ideas d u now) @ [format_idea now (idea_row_of u i)]"
proof -
  have id: "ir_id (idea_row_of u i) = i_id i" and usr: "ir_userId (idea_row_of u i) = Some u"
    by (simp_all add: idea_row_of_def Let_def)
  have rows: "filter (\<lambda>r. ir_userId r = Some u) (db_ideas (post_idea d u i)) =
                filter (\<lambda>x. ir_id x \<noteq> i_id i) (filter (\<lambda>r. ir_userId r = Some u) (db_ideas d)) @
                [idea_row_of u i]"
    using filter_insert_or_replace[of "\<lambda>r. ir_userId r = Some u" "idea_row_of u i" ir_id "db_ideas d"]
    by (simp add: post_idea_def usr id)
  have kept: "map (format_idea now)
                (filter (\<lambda>x. ir_id x \<noteq> i_id i) (filter (\<lambda>r. ir_userId r = Some u) (db_ideas d)))
              = filter (\<lambda>v. ir_id (iv_row v) \<noteq> i_id i)
                  (map (format_idea now) (filter (\<lambda>r. ir_userId r = Some u) (db_ideas d)))"
    by (rule filter_map_view) (simp add: format_idea_def Let_def)
  show ?thesis
    unfolding get_ideas_def rows map_append list.map kept ..
qed

lemma idea_row_of_entries:
  "i_entries i = Some es \<Longrightarrow>
     JSON_parse (or_empty_text (ir_entries (idea_row_of u i))) = Some (entries_json es)"
  by (simp add: idea_row_of_def Let_def parse_stored)

lemma idea_row_of_description_empty_entries:
  "i_entries i = Some [] \<Longrightarrow> ir_description (idea_row_of u i) = or_default (i_description i) []"
  by (simp add: idea_row_of_def Let_def)

lemma trimIsEmpty_Nil: "trimIsEmpty []"
  by (simp add: trimIsEmpty_def)

lemma format_idea_row_of:
  assumes "i_entries i = Some es"
      and "es \<noteq> [] \<or> trimIsEmpty (or_default (i_description i) [])"
  shows "format_idea now (idea_row_of u i) = \<lparr>iv_row = idea_row_of u i, iv_entries = entries_json es\<rparr>"
proof (cases es)
  case Nil
  then have "trimIsEmpty (ir_description (idea_row_of u i))"
    using assms idea_row_of_description_empty_entries[of i u] by simp
  then show ?thesis
    using idea_row_of_entries[OF assms(1), of u] by (simp add: format_idea_def Let_def)
next
  case (Cons e es')
  then have "entries_json es \<noteq> JArr [] \<and> entries_json es \<noteq> JStr []" by (simp add: entries_json_def)
  then show ?thesis
    using idea_row_of_entries[OF assms(1), of u] by (simp add: format_idea_def Let_def)
qed

lemma or_empty_array_array: "or_empty_array (Some (JArr vs)) = JArr vs"
  by (simp add: or_empty_array_def)

subsection \<open>Columns of a saved task\<close>

text \<open>
  Claim C10. The task endpoint stores the columns id, userId, content, isCompleted, type,
  date, createdAt, isPriority, subtasks and engagementId, and no other: changing projectId,
  projectName and engagementName of the submitted task changes nothing in the resulting
  store; every stored row with the task's id has a NULL projectId; and when the tasks of the
  user could be listed before the save, the list after it is the old one without the task's
  id, followed by the saved task, whose row holds exactly those columns and no projectId.
\<close>

theorem post_task_drops_project_link:
  "post_task d userId (t\<lparr>t_projectId := pid, t_projectName := pname, t_engagementName := ename\<rparr>)
     = post_task d userId t \<and>
   (\<forall>r \<in> set (db_tasks (post_task d userId t)). tr_id r = t_id t \<longrightarrow> tr_projectId r = None) \<and>
   (\<forall>old. get_tasks d userId = Some old \<longrightarrow>
      (\<exists>v. get_tasks (post_task d userId t) userId =
               Some (filter (\<lambda>v. tr_id (tv_row v) \<noteq> t_id t) old @ [v]) \<and>
            tv_row v =
              \<lparr>tr_id = t_id t, tr_userId = Some userId, tr_content = t_content t,
               tr_isCompleted = (if t_isCompleted t then 1 else 0), tr_type = t_type t,
               tr_date = t_date t, tr_createdAt = t_createdAt t,
               tr_isPriority = (if t_isPriority t = Some True then 1 else 0),
               tr_engagementId = t_engagementId t, tr_projectId = None,
               tr_subtasks = Some (JSON_stringify (or_empty_array (t_subtasks t)))\<rparr>))"
proof -
  have a: "post_task d userId (t\<lparr>t_projectId := pid, t_projectName := pname, t_engagementName := ename\<rparr>)
     = post_task d userId t"
    by (simp add: post_task_def task_row_of_def)
  have b: "\<forall>r \<in> set (db_tasks (post_task d userId t)). tr_id r = t_id t \<longrightarrow> tr_projectId r = None"
    by (auto simp: post_task_def insert_or_replace_def task_row_of_def)
  have c: "\<forall>old. get_tasks d userId = Some old \<longrightarrow>
      (\<exists>v. get_tasks (post_task d userId t) userId =
               Some (filter (\<lambda>v. tr_id (tv_row v) \<noteq> t_id t) old @ [v]) \<and>
            tv_row v =
              \<lparr>tr_id = t_id t, tr_userId = Some userId, tr_content = t_content t,
               tr_isCompleted = (if t_isCompleted t then 1 else 0), tr_type = t_type t,
               tr_date = t_date t, tr_createdAt = t_createdAt t,
               tr_isPriority = (if t_isPriority t = Some True then 1 else 0),
               tr_engagementId = t_engagementId t, tr_projectId = None,
               tr_subtasks = Some (JSON_stringify (or_empty_array (t_subtasks t)))\<rparr>)"
  proof (intro allI impI)
    fix old assume "get_tasks d userId = Some old"
    from get_tasks_post_task[OF this, of t]
    show "\<exists>v. get_tasks (post_task d userId t) userId =
               Some (filter (\<lambda>v. tr_id (tv_row v) \<noteq> t_id t) old @ [v]) \<and>
            tv_row v =
              \<lparr>tr_id = t_id t, tr_userId = Some userId, tr_content = t_content t,
               tr_isCompleted = (if t_isCompleted t then 1 else 0), tr_type = t_type t,
               tr_date = t_date t, tr_createdAt = t_createdAt t,
               tr_isPriority = (if t_isPriority t = Some True then 1 else 0),
               tr_engagementId = t_engagementId t, tr_projectId = None,
               tr_subtasks = Some (JSON_stringify (or_empty_array (t_subtasks t)))\<rparr>"
      by (simp add: task_row_of_def flag_def flag_opt_def)
  qed
  show ?thesis using a b c by blast
qed

theorem post_task_drops_project_link_witness:
  "t_projectId ex_update = Some ''p-1'' \<and> get_tasks ex_db ''user-1'' = Some [] \<and>
   (\<exists>v. get_tasks (post_task ex_db ''user-1'' ex_update) ''user-1'' = Some [v] \<and>
        tr_id (tv_row v) = ''pt-2'' \<and> tr_projectId (tv_row v) = None \<and>
        tr_isCompleted (tv_row v) = 1)"
proof -
  have g: "get_tasks ex_db ''user-1'' = Some []"
    by (simp add: get_tasks_def ex_db_def empty_db_def)
  from post_task_drops_project_link[where d = ex_db and userId = "''user-1''" and t = ex_update, THEN conjunct2, THEN conjunct2,
      rule_format, OF g]
  obtain v where v: "get_tasks (post_task ex_db ''user-1'' ex_update) ''user-1'' = Some ([] @ [v])"
    "tv_row v =
              \<lparr>tr_id = t_id ex_update, tr_userId = Some ''user-1'', tr_content = t_content ex_update,
               tr_isCompleted = (if t_isCompleted ex_update then 1 else 0), tr_type = t_type ex_update,
               tr_date = t_date ex_update, tr_createdAt = t_createdAt ex_update,
               tr_isPriority = (if t_isPriority ex_update = Some True then 1 else 0),
               tr_engagementId = t_engagementId ex_update, tr_projectId = None,
               tr_subtasks = Some (JSON_stringify (or_empty_array (t_subtasks ex_update)))\<rparr>"
    by auto
  have "get_tasks (post_task ex_db ''user-1'' ex_update) ''user-1'' = Some [v] \<and>
        tr_id (tv_row v) = ''pt-2'' \<and> tr_projectId (tv_row v) = None \<and>
        tr_isCompleted (tv_row v) = 1"
    using v by (simp add: ex_update_def)
  moreover have "t_projectId ex_update = Some ''p-1''" by (simp add: ex_update_def)
  ultimately show ?thesis using g by blast
qed

subsection \<open>Round trip of nested arrays and flags\<close>

text \<open>
  Claim C7, as amended. Saving an entity and listing the user's entities again gives the
  earlier list without the entity's id, followed by the saved entity, in which every nested
  array is the JSON value that was submitted (the empty array when the field was absent)
  and every flag is the boolean that was submitted (false when absent): for a Task
  (subtasks, isCompleted, isPriority), an Engagement (timeline, files), a Note (tags), a
  Highlight (needsFollowUp) and a CalendarEvent (momSent). An array that is present is
  reproduced as it is, 0 reads as false and 1 as true. For an Idea the entries are
  reproduced when they are not empty, or when the description is absent or blank: an Idea
  saved with no entries and a description is not covered.
\<close>

theorem save_then_list_roundtrip:
  "(\<forall>old. get_tasks d u = Some old \<longrightarrow>
      get_tasks (post_task d u t) u =
        Some (filter (\<lambda>v. tr_id (tv_row v) \<noteq> t_id t) old @
              [\<lparr>tv_row = task_row_of u t, tv_isCompleted = t_isCompleted t,
                tv_isPriority = (t_isPriority t = Some True),
                tv_subtasks = or_empty_array (t_subtasks t)\<rparr>])) \<and>
   (\<forall>old. get_engagements d u = Some old \<longrightarrow>
      get_engagements (post_engagement d u e) u =
        Some (filter (\<lambda>v. er_id (ev_row v) \<noteq> e_id e) old @
              [\<lparr>ev_row = engagement_row_of u e, ev_timeline = or_empty_array (e_timeline e),
                ev_files = or_empty_array (e_files e)\<rparr>])) \<and>
   (\<forall>old. get_notes d u = Some old \<longrightarrow>
      get_notes (post_note d u n) u =
        Some (filter (\<lambda>v. nr_id (nv_row v) \<noteq> n_id n) old @
              [\<lparr>nv_row = note_row_of u n, nv_tags = or_empty_array (n_tags n)\<rparr>])) \<and>
   get_highlights (post_highlight d u h) u =
     filter (\<lambda>v. hr_id (hv_row v) \<noteq> h_id h) (get_highlights d u) @
     [\<lparr>hv_row = highlight_row_of u h, hv_needsFollowUp = h_needsFollowUp h\<rparr>] \<and>
   get_calendar (post_calendar d u c) u =
     filter (\<lambda>v. cr_id (cv_row v) \<noteq> c_id c) (get_calendar d u) @
     [\<lparr>cv_row = calendar_event_row_of u c, cv_momSent = (c_momSent c = Some True)\<rparr>] \<and>
   (\<forall>es. i_entries i = Some es \<and> (es \<noteq> [] \<or> trimIsEmpty (or_default (i_description i) [])) \<longrightarrow>
      get_ideas (post_idea d u i) u now =
        filter (\<lambda>v. ir_id (iv_row v) \<noteq> i_id i) (get_ideas d u now) @
        [\<lparr>iv_row = idea_row_of u i, iv_entries = entries_json es\<rparr>]) \<and>
   (\<forall>vs. or_empty_array (Some (JArr vs)) = JArr vs) \<and>
   not_not 0 = False \<and> not_not 1 = True"
proof -
  have a: "\<forall>old. get_tasks d u = Some old \<longrightarrow>
      get_tasks (post_task d u t) u =
        Some (filter (\<lambda>v. tr_id (tv_row v) \<noteq> t_id t) old @
              [\<lparr>tv_row = task_row_of u t, tv_isCompleted = t_isCompleted t,
                tv_isPriority = (t_isPriority t = Some True),
                tv_subtasks = or_empty_array (t_subtasks t)\<rparr>])"
    using get_tasks_post_task by blast
  have b: "\<forall>old. get_engagements d u = Some old \<longrightarrow>
      get_engagements (post_engagement d u e) u =
        Some (filter (\<lambda>v. er_id (ev_row v) \<noteq> e_id e) old @
              [\<lparr>ev_row = engagement_row_of u e, ev_timeline = or_empty_array (e_timeline e),
                ev_files = or_empty_array (e_files e)\<rparr>])"
    using get_engagements_post_engagement by blast
  have c: "\<forall>old. get_notes d u = Some old \<longrightarrow>
      get_notes (post_note d u n) u =
        Some (filter (\<lambda>v. nr_id (nv_row v) \<noteq> n_id n) old @
              [\<lparr>nv_row = note_row_of u n, nv_tags = or_empty_array (n_tags n)\<rparr>])"
    using get_notes_post_note by blast
  have f: "\<forall>es. i_entries i = Some es \<and> (es \<noteq> [] \<or> trimIsEmpty (or_default (i_description i) [])) \<longrightarrow>
      get_ideas (post_idea d u i) u now =
        filter (\<lambda>v. ir_id (iv_row v) \<noteq> i_id i) (get_ideas d u now) @
        [\<lparr>iv_row = idea_row_of u i, iv_entries = entries_json es\<rparr>]"
    using get_ideas_post_idea[of d u i now] format_idea_row_of[of i _ now u] by simp
  have g: "\<forall>vs. or_empty_array (Some (JArr vs)) = JArr vs"
    by (simp add: or_empty_array_array)
  have k: "not_not 0 = False \<and> not_not 1 = True" by (simp add: not_not_def)
  show ?thesis
    using a b c get_highlights_post_highlight[of d u h] get_calendar_post_calendar[of d u c] f g k
    by blast
qed

theorem save_then_list_roundtrip_witness:
  "get_tasks ex_db ''user-1'' = Some [] \<and>
   get_tasks (post_task ex_db ''user-1'' ex_task1) ''user-1'' =
     Some [\<lparr>tv_row = task_row_of ''user-1'' ex_task1, tv_isCompleted = False, tv_isPriority = True,
            tv_subtasks = JArr [JObj [(''id'', JStr ''st-1''), (''content'', JStr ''Check variance''),
                                      (''isCompleted'', JBool False)],
                                JObj [(''id'', JStr ''st-2''), (''content'', JStr ''Format slides''),
                                      (''isCompleted'', JBool True)]]\<rparr>] \<and>
   tr_subtasks (task_row_of ''user-1'' ex_task1) =
     Some (JSON_stringify (JArr [JObj [(''id'', JStr ''st-1''), (''content'', JStr ''Check variance''),
                                      (''isCompleted'', JBool False)],
                                JObj [(''id'', JStr ''st-2''), (''content'', JStr ''Format slides''),
                                      (''isCompleted'', JBool True)]])) \<and>
   tr_isCompleted (task_row_of ''user-1'' ex_task1) = 0 \<and>
   tr_isPriority (task_row_of ''user-1'' ex_task1) = 1"
proof -
  have g: "get_tasks ex_db ''user-1'' = Some []"
    by (simp add: get_tasks_def ex_db_def empty_db_def)
  have "get_tasks (post_task ex_db ''user-1'' ex_task1) ''user-1'' =
        Some (filter (\<lambda>v. tr_id (tv_row v) \<noteq> t_id ex_task1) [] @
              [\<lparr>tv_row = task_row_of ''user-1'' ex_task1, tv_isCompleted = t_isCompleted ex_task1,
                tv_isPriority = (t_isPriority ex_task1 = Some True),
                tv_subtasks = or_empty_array (t_subtasks ex_task1)\<rparr>])"
    using save_then_list_roundtrip[where d = ex_db and u = "''user-1''" and t = ex_task1,
        THEN conjunct1, rule_format, OF g] .
  then have a: "get_tasks (post_task ex_db ''user-1'' ex_task1) ''user-1'' =
     Some [\<lparr>tv_row = task_row_of ''user-1'' ex_task1, tv_isCompleted = False, tv_isPriority = True,
            tv_subtasks = JArr [JObj [(''id'', JStr ''st-1''), (''content'', JStr ''Check variance''),
                                      (''isCompleted'', JBool False)],
                                JObj [(''id'', JStr ''st-2''), (''content'', JStr ''Format slides''),
                                      (''isCompleted'', JBool True)]]\<rparr>]"
    by (simp add: ex_task1_def or_empty_array_def)
  have b: "tr_subtasks (task_row_of ''user-1'' ex_task1) =
     Some (JSON_stringify (JArr [JObj [(''id'', JStr ''st-1''), (''content'', JStr ''Check variance''),
                                      (''isCompleted'', JBool False)],
                                JObj [(''id'', JStr ''st-2''), (''content'', JStr ''Format slides''),
                                      (''isCompleted'', JBool True)]]))"
    "tr_isCompleted (task_row_of ''user-1'' ex_task1) = 0"
    "tr_isPriority (task_row_of ''user-1'' ex_task1) = 1"
    by (simp_all add: task_row_of_def ex_task1_def or_empty_array_def flag_def flag_opt_def)
  show ?thesis using g a b by blast
qed

text \<open>
  The claim as written fails for an Idea saved with an empty entries array and a
  description: the row stores the empty array, and the list handler, which turns a legacy
  description into an entry, answers with one entry instead of none.
\<close>

theorem idea_empty_entries_not_reproduced:
  "i_entries ex_idea_body = Some [] \<and>
   ir_entries (idea_row_of ''user-1'' ex_idea_body) = Some (JSON_stringify (JArr [])) \<and>
   map iv_entries (get_ideas (post_idea empty_db ''user-1'' ex_idea_body) ''user-1'' ''2024-01-03T12:00'') =
     [JArr [JObj [(''id'', JStr ''legacy-idea-9''), (''content'', JStr ''Keep it short''),
                  (''timestamp'', JStr ''2024-01-02T08:00'')]]]"
proof -
  have e: "i_entries ex_idea_body = Some []" by (simp add: ex_idea_body_def)
  have s: "ir_entries (idea_row_of ''user-1'' ex_idea_body) = Some (JSON_stringify (JArr []))"
    by (simp add: idea_row_of_def ex_idea_body_def entries_json_def)
  have p: "JSON_parse (or_empty_text (ir_entries (idea_row_of ''user-1'' ex_idea_body))) = Some (JArr [])"
    using idea_row_of_entries[OF e, of "''user-1''"] by (simp add: entries_json_def)
  have fields: "ir_description (idea_row_of ''user-1'' ex_idea_body) = ''Keep it short''"
    "ir_id (idea_row_of ''user-1'' ex_idea_body) = ''idea-9''"
    "ir_createdAt (idea_row_of ''user-1'' ex_idea_body) = ''2024-01-02T08:00''"
    by (simp_all add: idea_row_of_def ex_idea_body_def or_default_def)
  have blank: "\<not> trimIsEmpty ''Keep it short''"
    by (simp add: trimIsEmpty_def isWhiteSpace_def)
  have new: "iv_entries (format_idea ''2024-01-03T12:00'' (idea_row_of ''user-1'' ex_idea_body)) =
     JArr [JObj [(''id'', JStr ''legacy-idea-9''), (''content'', JStr ''Keep it short''),
                  (''timestamp'', JStr ''2024-01-02T08:00'')]]"
    by (simp add: format_idea_def Let_def p fields blank)
  have old: "get_ideas empty_db ''user-1'' ''2024-01-03T12:00'' = []"
    by (simp add: get_ideas_def empty_db_def)
  have "get_ideas (post_idea empty_db ''user-1'' ex_idea_body) ''user-1'' ''2024-01-03T12:00'' =
          [format_idea ''2024-01-03T12:00'' (idea_row_of ''user-1'' ex_idea_body)]"
    unfolding get_ideas_post_idea old by simp
  then show ?thesis using e s new by simp
qed

section \<open>The migration and the order of startup events\<close>

lemma migration_callback_absent:
  "\<not> (\<exists>u \<in> set (db_users d). LOWER (ur_email u) = LOWER RISHAV_EMAIL) \<Longrightarrow>
     migration_callback d = d"
proof -
  assume "\<not> (\<exists>u \<in> set (db_users d). LOWER (ur_email u) = LOWER RISHAV_EMAIL)"
  then have "List.find (\<lambda>u. LOWER (ur_email u) = LOWER RISHAV_EMAIL) (db_users d) = None"
    by (simp add: find_None_iff)
  then show ?thesis by (simp add: migration_callback_def)
qed

lemma migration_callback_present:
  assumes "List.find (\<lambda>u. LOWER (ur_email u) = LOWER RISHAV_EMAIL) (db_users d) = Some user"
  shows "migration_callback d =
     d\<lparr>db_engagements :=
               map (\<lambda>r. if er_userId r = None then r\<lparr>er_userId := Some (ur_id user)\<rparr> else r)
                   (db_engagements d),
             db_tasks :=
               map (\<lambda>r. if tr_userId r = None then r\<lparr>tr_userId := Some (ur_id user)\<rparr> else r)
                   (db_tasks d),
             db_projects :=
               map (\<lambda>r. if pr_userId r = None then r\<lparr>pr_userId := Some (ur_id user)\<rparr> else r)
                   (db_projects d),
             db_highlights :=
               map (\<lambda>r. if hr_userId r = None then r\<lparr>hr_userId := Some (ur_id user)\<rparr> else r)
                   (db_highlights d),
             db_ideas :=
               map (\<lambda>r. if ir_userId r = None then r\<lparr>ir_userId := Some (ur_id user)\<rparr> else r)
                   (db_ideas d),
             db_calendar_events :=
               map (\<lambda>r. if cr_userId r = None then r\<lparr>cr_userId := Some (ur_id user)\<rparr> else r)
                   (db_calendar_events d),
             db_useful_links :=
               map (\<lambda>r. if lr_userId r = None then r\<lparr>lr_userId := Some (ur_id user)\<rparr> else r)
                   (db_useful_links d),
             db_notes :=
               map (\<lambda>r. if nr_userId r = None then r\<lparr>nr_userId := Some (ur_id user)\<rparr> else r)
                   (db_notes d),
             db_settings :=
               map (\<lambda>r. if sr_userId r = None then r\<lparr>sr_userId := Some (ur_id user)\<rparr> else r)
                   (db_settings d)\<rparr>"
  using assms by (simp add: migration_callback_def)

lemma startup_inv_boot: "startup_inv d (boot d)"
  by (simp add: startup_inv_def boot_def)

lemma startup_inv_step:
  assumes "startup_inv d s" and "step s e = Some s'"
  shows "startup_inv d s'"
proof (cases e)
  case ModuleLoaded
  then show ?thesis using assms by (auto simp: startup_inv_def split: if_splits)
next
  case DatabaseOpened
  then show ?thesis using assms by (auto simp: startup_inv_def split: if_splits)
next
  case TimerElapsed
  then show ?thesis using assms by (auto simp: startup_inv_def split: if_splits)
next
  case (GetTasks u)
  then show ?thesis using assms by (auto simp: startup_inv_def split: if_splits)
qed

lemma startup_inv_run:
  "startup_inv d s \<Longrightarrow> run s evs = Some s' \<Longrightarrow> startup_inv d s'"
proof (induction evs arbitrary: s)
  case Nil
  then show ?case by simp
next
  case (Cons e evs)
  from Cons.prems(2) obtain s1 where s1: "step s e = Some s1" "run s1 evs = Some s'"
    by (auto split: option.splits)
  show ?case by (rule Cons.IH[OF startup_inv_step[OF Cons.prems(1) s1(1)] s1(2)])
qed

lemma JSON_parse_empty_array: "JSON_parse ''[]'' = Some (JArr [])"
  by code_simp

lemma RISHAV_EMAIL_lower: "LOWER RISHAV_EMAIL = ''newrishav@gmail.com''"
  by code_simp

lemma legacy_email_lower: "LOWER ''newrishav@gmail.com'' = ''newrishav@gmail.com''"
  by code_simp

text \<open>
  Claim C8, as amended. The migration is the callback of a timer that is armed when the
  database has been opened, which happens only in a process that is already listening. In
  every sequence of events from startup the callback has run at most once, the timer is
  pending only while it has not run, and the store is the one found at startup until it has
  run and the migrated one from then on. The sequence module load, database open, timer
  runs it once; a request that comes between the database open and the timer is answered
  from the store found at startup. When the callback runs and no user has the designated
  email (compared with \<^verbatim>\<open>LOWER\<close>) the store is unchanged; when there is one, every
  row with a NULL userId in engagements, tasks, projects, highlights, ideas,
  calendar_events, useful_links, notes and settings gets that user's id, rows that have a
  userId keep it, and the users, project_tasks and research_notes tables are not touched.
\<close>

theorem migration_at_startup:
  "(\<not> (\<exists>u \<in> set (db_users d). LOWER (ur_email u) = LOWER RISHAV_EMAIL) \<longrightarrow>
      migration_callback d = d) \<and>
   (\<forall>user. List.find (\<lambda>u. LOWER (ur_email u) = LOWER RISHAV_EMAIL) (db_users d) = Some user \<longrightarrow>
      db_engagements (migration_callback d) =
        map (\<lambda>r. if er_userId r = None then r\<lparr>er_userId := Some (ur_id user)\<rparr> else r) (db_engagements d) \<and>
      db_tasks (migration_callback d) =
        map (\<lambda>r. if tr_userId r = None then r\<lparr>tr_userId := Some (ur_id user)\<rparr> else r) (db_tasks d) \<and>
      db_projects (migration_callback d) =
        map (\<lambda>r. if pr_userId r = None then r\<lparr>pr_userId := Some (ur_id user)\<rparr> else r) (db_projects d) \<and>
      db_highlights (migration_callback d) =
        map (\<lambda>r. if hr_userId r = None then r\<lparr>hr_userId := Some (ur_id user)\<rparr> else r) (db_highlights d) \<and>
      db_ideas (migration_callback d) =
        map (\<lambda>r. if ir_userId r = None then r\<lparr>ir_userId := Some (ur_id user)\<rparr> else r) (db_ideas d) \<and>
      db_calendar_events (migration_callback d) =
        map (\<lambda>r. if cr_userId r = None then r\<lparr>cr_userId := Some (ur_id user)\<rparr> else r)
          (db_calendar_events d) \<and>
      db_useful_links (migration_callback d) =
        map (\<lambda>r. if lr_userId r = None then r\<lparr>lr_userId := Some (ur_id user)\<rparr> else r)
          (db_useful_links d) \<and>
      db_notes (migration_callback d) =
        map (\<lambda>r. if nr_userId r = None then r\<lparr>nr_userId := Some (ur_id user)\<rparr> else r) (db_notes d) \<and>
      db_settings (migration_callback d) =
        map (\<lambda>r. if sr_userId r = None then r\<lparr>sr_userId := Some (ur_id user)\<rparr> else r) (db_settings d) \<and>
      db_users (migration_callback d) = db_users d \<and>
      db_project_tasks (migration_callback d) = db_project_tasks d \<and>
      db_research_notes (migration_callback d) = db_research_notes d) \<and>
   (\<forall>evs s. run (boot d) evs = Some s \<longrightarrow>
      sv_migrations s \<le> 1 \<and>
      (sv_timer s \<longrightarrow> sv_opened s \<and> sv_migrations s = 0) \<and>
      (0 < sv_migrations s \<longrightarrow> sv_listening s \<and> sv_opened s) \<and>
      sv_db s = (if sv_migrations s = 0 then d else migration_callback d)) \<and>
   run (boot d) [ModuleLoaded, DatabaseOpened, TimerElapsed] =
     Some \<lparr>sv_db = migration_callback d, sv_listening = True, sv_opened = True,
           sv_timer = False, sv_migrations = 1, sv_served = []\<rparr> \<and>
   run (boot d) [ModuleLoaded, DatabaseOpened, TimerElapsed, TimerElapsed] = None \<and>
   (\<forall>userId. run (boot d) [ModuleLoaded, DatabaseOpened, GetTasks userId] =
     Some \<lparr>sv_db = d, sv_listening = True, sv_opened = True,
           sv_timer = True, sv_migrations = 0, sv_served = [get_tasks d userId]\<rparr>)"
proof -
  have a: "\<not> (\<exists>u \<in> set (db_users d). LOWER (ur_email u) = LOWER RISHAV_EMAIL) \<longrightarrow>
      migration_callback d = d"
    using migration_callback_absent by blast
  have b: "\<forall>user. List.find (\<lambda>u. LOWER (ur_email u) = LOWER RISHAV_EMAIL) (db_users d) = Some user \<longrightarrow>
      db_engagements (migration_callback d) =
        map (\<lambda>r. if er_userId r = None then r\<lparr>er_userId := Some (ur_id user)\<rparr> else r) (db_engagements d) \<and>
      db_tasks (migration_callback d) =
        map (\<lambda>r. if tr_userId r = None then r\<lparr>tr_userId := Some (ur_id user)\<rparr> else r) (db_tasks d) \<and>
      db_projects (migration_callback d) =
        map (\<lambda>r. if pr_userId r = None then r\<lparr>pr_userId := Some (ur_id user)\<rparr> else r) (db_projects d) \<and>
      db_highlights (migration_callback d) =
        map (\<lambda>r. if hr_userId r = None then r\<lparr>hr_userId := Some (ur_id user)\<rparr> else r) (db_highlights d) \<and>
      db_ideas (migration_callback d) =
        map (\<lambda>r. if ir_userId r = None then r\<lparr>ir_userId := Some (ur_id user)\<rparr> else r) (db_ideas d) \<and>
      db_calendar_events (migration_callback d) =
        map (\<lambda>r. if cr_userId r = None then r\<lparr>cr_userId := Some (ur_id user)\<rparr> else r)
          (db_calendar_events d) \<and>
      db_useful_links (migration_callback d) =
        map (\<lambda>r. if lr_userId r = None then r\<lparr>lr_userId := Some (ur_id user)\<rparr> else r)
          (db_useful_links d) \<and>
      db_notes (migration_callback d) =
        map (\<lambda>r. if nr_userId r = None then r\<lparr>nr_userId := Some (ur_id user)\<rparr> else r) (db_notes d) \<and>
      db_settings (migration_callback d) =
        map (\<lambda>r. if sr_userId r = None then r\<lparr>sr_userId := Some (ur_id user)\<rparr> else r) (db_settings d) \<and>
      db_users (migration_callback d) = db_users d \<and>
      db_project_tasks (migration_callback d) = db_project_tasks d \<and>
      db_research_notes (migration_callback d) = db_research_notes d"
  proof (intro allI impI)
    fix user
    assume "List.find (\<lambda>u. LOWER (ur_email u) = LOWER RISHAV_EMAIL) (db_users d) = Some user"
    from migration_callback_present[OF this]
    show "db_engagements (migration_callback d) =
        map (\<lambda>r. if er_userId r = None then r\<lparr>er_userId := Some (ur_id user)\<rparr> else r) (db_engagements d) \<and>
      db_tasks (migration_callback d) =
        map (\<lambda>r. if tr_userId r = None then r\<lparr>tr_userId := Some (ur_id user)\<rparr> else r) (db_tasks d) \<and>
      db_projects (migration_callback d) =
        map (\<lambda>r. if pr_userId r = None then r\<lparr>pr_userId := Some (ur_id user)\<rparr> else r) (db_projects d) \<and>
      db_highlights (migration_callback d) =
        map (\<lambda>r. if hr_userId r = None then r\<lparr>hr_userId := Some (ur_id user)\<rparr> else r) (db_highlights d) \<and>
      db_ideas (migration_callback d) =
        map (\<lambda>r. if ir_userId r = None then r\<lparr>ir_userId := Some (ur_id user)\<rparr> else r) (db_ideas d) \<and>
      db_calendar_events (migration_callback d) =
        map (\<lambda>r. if cr_userId r = None then r\<lparr>cr_userId := Some (ur_id user)\<rparr> else r)
          (db_calendar_events d) \<and>
      db_useful_links (migration_callback d) =
        map (\<lambda>r. if lr_userId r = None then r\<lparr>lr_userId := Some (ur_id user)\<rparr> else r)
          (db_useful_links d) \<and>
      db_notes (migration_callback d) =
        map (\<lambda>r. if nr_userId r = None then r\<lparr>nr_userId := Some (ur_id user)\<rparr> else r) (db_notes d) \<and>
      db_settings (migration_callback d) =
        map (\<lambda>r. if sr_userId r = None then r\<lparr>sr_userId := Some (ur_id user)\<rparr> else r) (db_settings d) \<and>
      db_users (migration_callback d) = db_users d \<and>
      db_project_tasks (migration_callback d) = db_project_tasks d \<and>
      db_research_notes (migration_callback d) = db_research_notes d"
      by simp
  qed
  have c: "\<forall>evs s. run (boot d) evs = Some s \<longrightarrow>
      sv_migrations s \<le> 1 \<and>
      (sv_timer s \<longrightarrow> sv_opened s \<and> sv_migrations s = 0) \<and>
      (0 < sv_migrations s \<longrightarrow> sv_listening s \<and> sv_opened s) \<and>
      sv_db s = (if sv_migrations s = 0 then d else migration_callback d)"
  proof (intro allI impI)
    fix evs s assume "run (boot d) evs = Some s"
    from startup_inv_run[OF startup_inv_boot this]
    show "sv_migrations s \<le> 1 \<and>
      (sv_timer s \<longrightarrow> sv_opened s \<and> sv_migrations s = 0) \<and>
      (0 < sv_migrations s \<longrightarrow> sv_listening s \<and> sv_opened s) \<and>
      sv_db s = (if sv_migrations s = 0 then d else migration_callback d)"
      by (simp add: startup_inv_def)
  qed
  have e: "run (boot d) [ModuleLoaded, DatabaseOpened, TimerElapsed] =
     Some \<lparr>sv_db = migration_callback d, sv_listening = True, sv_opened = True,
           sv_timer = False, sv_migrations = 1, sv_served = []\<rparr>"
    by (simp add: boot_def)
  have f: "run (boot d) [ModuleLoaded, DatabaseOpened, TimerElapsed, TimerElapsed] = None"
    by (simp add: boot_def)
  have g: "\<forall>userId. run (boot d) [ModuleLoaded, DatabaseOpened, GetTasks userId] =
     Some \<lparr>sv_db = d, sv_listening = True, sv_opened = True,
           sv_timer = True, sv_migrations = 0, sv_served = [get_tasks d userId]\<rparr>"
    by (simp add: boot_def)
  show ?thesis using a b c e f g by blast
qed

theorem migration_at_startup_witness:
  "List.find (\<lambda>u. LOWER (ur_email u) = LOWER RISHAV_EMAIL) (db_users ex_legacy_db) =
     Some ex_legacy_user \<and>
   db_tasks (migration_callback ex_legacy_db) = [ex_orphan_task\<lparr>tr_userId := Some ''user-r''\<rparr>] \<and>
   db_users (migration_callback ex_legacy_db) = [ex_legacy_user] \<and>
   \<not> (\<exists>u \<in> set (db_users ex_db). LOWER (ur_email u) = LOWER RISHAV_EMAIL) \<and>
   migration_callback ex_db = ex_db \<and>
   run (boot ex_legacy_db) [ModuleLoaded, DatabaseOpened, TimerElapsed] =
     Some \<lparr>sv_db = migration_callback ex_legacy_db, sv_listening = True, sv_opened = True,
           sv_timer = False, sv_migrations = 1, sv_served = []\<rparr> \<and>
   sv_migrations \<lparr>sv_db = migration_callback ex_legacy_db, sv_listening = True, sv_opened = True,
           sv_timer = False, sv_migrations = 1, sv_served = []\<rparr> \<le> 1 \<and>
   sv_db \<lparr>sv_db = migration_callback ex_legacy_db, sv_listening = True, sv_opened = True,
           sv_timer = False, sv_migrations = 1, sv_served = []\<rparr> = migration_callback ex_legacy_db \<and>
   run (boot ex_legacy_db) [ModuleLoaded, DatabaseOpened] =
     Some \<lparr>sv_db = ex_legacy_db, sv_listening = True, sv_opened = True,
           sv_timer = True, sv_migrations = 0, sv_served = []\<rparr> \<and>
   sv_migrations \<lparr>sv_db = ex_legacy_db, sv_listening = True, sv_opened = True,
           sv_timer = True, sv_migrations = 0, sv_served = []\<rparr> = 0"
proof -
  have f: "List.find (\<lambda>u. LOWER (ur_email u) = LOWER RISHAV_EMAIL) (db_users ex_legacy_db) =
     Some ex_legacy_user"
    by (simp add: ex_legacy_db_def ex_legacy_user_def RISHAV_EMAIL_lower legacy_email_lower)
  note m = migration_at_startup[of ex_legacy_db, THEN conjunct2, THEN conjunct1, rule_format, OF f]
  have t: "db_tasks (migration_callback ex_legacy_db) = [ex_orphan_task\<lparr>tr_userId := Some ''user-r''\<rparr>]"
    using m by (simp add: ex_legacy_db_def ex_orphan_task_def ex_legacy_user_def)
  have us: "db_users (migration_callback ex_legacy_db) = [ex_legacy_user]"
    using m by (simp add: ex_legacy_db_def)
  have alice: "LOWER ''alice@example.com'' = ''alice@example.com''" by code_simp
  have n: "\<not> (\<exists>u \<in> set (db_users ex_db). LOWER (ur_email u) = LOWER RISHAV_EMAIL)"
    by (simp add: ex_db_def ex_user_def RISHAV_EMAIL_lower alice)
  have same: "migration_callback ex_db = ex_db"
    using migration_at_startup[of ex_db, THEN conjunct1] n by blast
  note tr = migration_at_startup[of ex_legacy_db, THEN conjunct2, THEN conjunct2, THEN conjunct1,
      rule_format]
  have r: "run (boot ex_legacy_db) [ModuleLoaded, DatabaseOpened, TimerElapsed] =
     Some \<lparr>sv_db = migration_callback ex_legacy_db, sv_listening = True, sv_opened = True,
           sv_timer = False, sv_migrations = 1, sv_served = []\<rparr>"
    by (simp add: boot_def)
  have once: "sv_migrations \<lparr>sv_db = migration_callback ex_legacy_db, sv_listening = True,
           sv_opened = True, sv_timer = False, sv_migrations = 1, sv_served = []\<rparr> \<le> 1"
    using tr[OF r] by blast
  have db: "sv_db \<lparr>sv_db = migration_callback ex_legacy_db, sv_listening = True, sv_opened = True,
           sv_timer = False, sv_migrations = 1, sv_served = []\<rparr> = migration_callback ex_legacy_db"
    using tr[OF r] by simp
  have r0: "run (boot ex_legacy_db) [ModuleLoaded, DatabaseOpened] =
     Some \<lparr>sv_db = ex_legacy_db, sv_listening = True, sv_opened = True,
           sv_timer = True, sv_migrations = 0, sv_served = []\<rparr>"
    by (simp add: boot_def)
  have pending: "sv_migrations \<lparr>sv_db = ex_legacy_db, sv_listening = True, sv_opened = True,
           sv_timer = True, sv_migrations = 0, sv_served = []\<rparr> = 0"
    using tr[OF r0] by simp
  show ?thesis using f t us n same r once db r0 pending by blast
qed

text \<open>
  The claim as written fails on the order of events: the server listens from the moment the
  module is loaded, and the migration waits for its timer. A request that arrives after the
  database is open and before the timer elapses is answered from the store as it was: the
  designated user lists no task, and lists task-3 once the timer has run.
\<close>

theorem request_served_before_migration:
  "map_option sv_migrations
     (run (boot ex_legacy_db) [ModuleLoaded, DatabaseOpened, GetTasks ''user-r'']) = Some 0 \<and>
   map_option sv_served
     (run (boot ex_legacy_db) [ModuleLoaded, DatabaseOpened, GetTasks ''user-r'']) = Some [Some []] \<and>
   map_option sv_migrations
     (run (boot ex_legacy_db)
        [ModuleLoaded, DatabaseOpened, GetTasks ''user-r'', TimerElapsed, GetTasks ''user-r'']) =
     Some 1 \<and>
   map_option sv_served
     (run (boot ex_legacy_db)
        [ModuleLoaded, DatabaseOpened, GetTasks ''user-r'', TimerElapsed, GetTasks ''user-r'']) =
     Some [Some [],
           Some [\<lparr>tv_row = ex_orphan_task\<lparr>tr_userId := Some ''user-r''\<rparr>, tv_isCompleted = False,
                  tv_isPriority = False, tv_subtasks = JArr []\<rparr>]]"
proof -
  have before: "get_tasks ex_legacy_db ''user-r'' = Some []"
    by (simp add: get_tasks_def ex_legacy_db_def ex_orphan_task_def)
  have mig: "migration_callback ex_legacy_db =
               ex_legacy_db\<lparr>db_tasks := [ex_orphan_task\<lparr>tr_userId := Some ''user-r''\<rparr>]\<rparr>"
    by (simp add: migration_callback_def ex_legacy_db_def ex_legacy_user_def RISHAV_EMAIL_lower
        legacy_email_lower empty_db_def ex_orphan_task_def)
  have after: "get_tasks (migration_callback ex_legacy_db) ''user-r'' =
                 Some [\<lparr>tv_row = ex_orphan_task\<lparr>tr_userId := Some ''user-r''\<rparr>, tv_isCompleted = False,
                        tv_isPriority = False, tv_subtasks = JArr []\<rparr>]"
    unfolding mig
    by (simp add: get_tasks_def ex_orphan_task_def format_task_def or_empty_text_def or_default_def
        JSON_parse_empty_array not_not_def)
  show ?thesis using before after by (simp add: boot_def)
qed

end
